theory Spec2Isabelle
  imports Main
begin

section \<open>Data model\<close>

text \<open>
  The script \<^verbatim>\<open>record_and_transcribe.py\<close> talks to four things outside itself: the
  audio device (\<^verbatim>\<open>sounddevice\<close>, \<^verbatim>\<open>soundfile\<close>), the speech model (\<^verbatim>\<open>whisper\<close>),
  the clock (\<^verbatim>\<open>datetime.now\<close>) and the file system. The file system, the standard
  output and the order of the external calls are the state of the model; what the
  device, the model and the clock answer is an input of each iteration.
\<close>

type_synonym path = string

text \<open>An audio buffer as \<^verbatim>\<open>sd.rec\<close> returns it: a list of frames, one sample per channel.\<close>

type_synonym audio = "int list list"

datatype error =
    PortAudioError
  | LibsndfileError
  | RuntimeError
  | KeyError string
  | OSError
  | FileExistsError
  | OverflowError
  | ValueError

text \<open>
  A file holds either what \<^verbatim>\<open>sf.write(filename, audio, fs)\<close> stored (the buffer and its
  sample rate) or the string a text-mode \<^verbatim>\<open>f.write\<close> stored.
\<close>

datatype fcontent = Wav audio int | Txt string

record datetime =
  year :: nat
  month :: nat
  day :: nat
  hour :: nat
  minute :: nat
  second :: nat
  microsecond :: nat

text \<open>One event per external call, in the order the interpreter makes them.\<close>

datatype event =
    EvLoadModel string
  | EvMakedirs path
  | EvMkdir path
  | EvPrint string
  | EvRec int int int
  | EvWait
  | EvSfWrite path int
  | EvTranscribe path
  | EvNow
  | EvOpen path
  | EvWrite path
  | EvSleep int

record world =
  files :: "path \<rightharpoonup> fcontent"
  dirs :: "path set"
  trace :: "event list"

text \<open>
  What the outside answers during one iteration: the buffer \<^verbatim>\<open>sd.rec\<close> fills for the
  requested frames, sample rate and channels (or the exception it raises), whether
  \<^verbatim>\<open>sd.wait\<close> and \<^verbatim>\<open>sf.write\<close> raise, the dictionary \<^verbatim>\<open>MODEL.transcribe\<close> returns
  for the content found at the path it is given, the clock's reading, and whether
  \<^verbatim>\<open>open(out_path, "w")\<close> and \<^verbatim>\<open>f.write\<close> raise. The last field is the
  interpreter's: the text an f-string prints for a finite float, given by its mantissa
  and exponent (the shortest decimal string that reads back to the same float).
\<close>

record iter_env =
  sd_rec :: "int \<Rightarrow> int \<Rightarrow> int \<Rightarrow> error + audio"
  sd_wait :: "error option"
  sf_write :: "error option"
  MODEL_transcribe :: "fcontent option \<Rightarrow> error + (string \<rightharpoonup> string)"
  datetime_now :: datetime
  open_w :: "error option"
  f_write :: "error option"
  float_repr :: "int \<Rightarrow> int \<Rightarrow> string"

text \<open>What the outside answers at module level: \<^verbatim>\<open>whisper.load_model\<close> and \<^verbatim>\<open>mkdir\<close>.\<close>

record start_env =
  load_model :: "error option"
  mkdir :: "error option"

type_synonym outcome = "(error \<times> world) + world"

definition emit :: "event \<Rightarrow> world \<Rightarrow> world" where
  "emit ev w = w\<lparr>trace := trace w @ [ev]\<rparr>"

definition store :: "path \<Rightarrow> fcontent \<Rightarrow> world \<Rightarrow> world" where
  "store p c w = w\<lparr>files := (files w)(p \<mapsto> c)\<rparr>"

section \<open>Python numbers\<close>

text \<open>
  The duration of \<^verbatim>\<open>record_chunk\<close> is an int or a float. A finite float is written
  \<open>PyFloat m x\<close>, the double of value \<open>m * 2 ^ x\<close>; the negative zero, the infinities
  and the NaN are values of their own.
\<close>

datatype pynum =
    PyInt int
  | PyFloat int int
  | PyNegZero
  | PyInf
  | PyNegInf
  | PyNaN

text \<open>The number of binary digits of \<open>n\<close>.\<close>

fun bitlen :: "nat \<Rightarrow> nat" where
  "bitlen n = (if n = 0 then 0 else Suc (bitlen (n div 2)))"

declare bitlen.simps [simp del]

text \<open>\<open>m / 2 ^ s\<close> rounded to the nearest integer, a tie to the even one.\<close>

definition round_shift :: "nat \<Rightarrow> nat \<Rightarrow> nat" where
  "round_shift m s =
     (let q = m div 2 ^ s; r = m mod 2 ^ s
      in if 2 * r < 2 ^ s then q
         else if 2 ^ s < 2 * r then Suc q
         else if even q then q else Suc q)"

text \<open>
  The double nearest to \<open>m * 2 ^ x\<close> (IEEE 754 binary64, round to nearest, ties to
  even): at most 53 binary digits, no exponent below \<open>-1074\<close>, and an infinity from
  \<open>2 ^ 1024\<close> on.
\<close>

definition round_double :: "int \<Rightarrow> int \<Rightarrow> pynum" where
  "round_double m x =
     (let a = nat \<bar>m\<bar>;
          s = nat (max (int (bitlen a) - 53) (- 1074 - x));
          a' = round_shift a s;
          x' = x + int s
      in if a' = 0 then (if m < 0 then PyNegZero else PyFloat 0 0)
         else if 1024 < int (bitlen a') + x' then (if m < 0 then PyNegInf else PyInf)
         else PyFloat (if m < 0 then - int a' else int a') x')"

text \<open>
  \<^verbatim>\<open>duration * fs\<close> for an int \<open>fs\<close>: the product of two ints is exact; with a float the
  int is converted to a float (exactly, for an int of at most 53 binary digits such as
  the sample rate) and the product is rounded to a double.
\<close>

fun py_mul :: "pynum \<Rightarrow> int \<Rightarrow> pynum" where
  "py_mul (PyInt d) n = PyInt (d * n)"
| "py_mul (PyFloat m x) n =
     (if m * n = 0 then (if (m < 0) \<noteq> (n < 0) then PyNegZero else PyFloat 0 0)
      else round_double (m * n) x)"
| "py_mul PyNegZero n = (if n < 0 then PyFloat 0 0 else PyNegZero)"
| "py_mul PyInf n = (if n = 0 then PyNaN else if n < 0 then PyNegInf else PyInf)"
| "py_mul PyNegInf n = (if n = 0 then PyNaN else if n < 0 then PyInf else PyNegInf)"
| "py_mul PyNaN n = PyNaN"

text \<open>
  \<^verbatim>\<open>int(v)\<close>: an int is itself, a finite float is truncated toward zero, an infinity
  raises \<^verbatim>\<open>OverflowError\<close> and a NaN \<^verbatim>\<open>ValueError\<close>.
\<close>

fun py_int :: "pynum \<Rightarrow> error + int" where
  "py_int (PyInt d) = Inr d"
| "py_int (PyFloat m x) =
     Inr (if 0 \<le> x then m * 2 ^ nat x
          else if m < 0 then - (\<bar>m\<bar> div 2 ^ nat (- x)) else m div 2 ^ nat (- x))"
| "py_int PyNegZero = Inr 0"
| "py_int PyInf = Inl OverflowError"
| "py_int PyNegInf = Inl OverflowError"
| "py_int PyNaN = Inl ValueError"

section \<open>Formatting\<close>

definition digit :: "nat \<Rightarrow> char" where
  "digit n = ''0123456789'' ! (n mod 10)"

text \<open>\<^verbatim>\<open>str(n)\<close> for an int, as the f-string of \<^verbatim>\<open>record_chunk\<close> prints the duration.\<close>

fun str_nat :: "nat \<Rightarrow> string" where
  "str_nat n = (if n < 10 then [digit n] else str_nat (n div 10) @ [digit n])"

declare str_nat.simps [simp del]

definition str_int :: "int \<Rightarrow> string" where
  "str_int i = (if i < 0 then CHR ''-'' # str_nat (nat (- i)) else str_nat (nat i))"

text \<open>What an f-string prints for a number.\<close>

fun py_str :: "iter_env \<Rightarrow> pynum \<Rightarrow> string" where
  "py_str e (PyInt d) = str_int d"
| "py_str e (PyFloat m x) = float_repr e m x"
| "py_str e PyNegZero = ''-0.0''"
| "py_str e PyInf = ''inf''"
| "py_str e PyNegInf = ''-inf''"
| "py_str e PyNaN = ''nan''"

text \<open>
  \<^verbatim>\<open>%m\<close>, \<^verbatim>\<open>%d\<close>, \<^verbatim>\<open>%H\<close>, \<^verbatim>\<open>%M\<close> and \<^verbatim>\<open>%S\<close> print two digits, \<^verbatim>\<open>%Y\<close> the year
  with century in four (zero-padded below 1000, as the Python documentation lists it; a
  clock of today never shows such a year).
\<close>

definition pad2 :: "nat \<Rightarrow> string" where
  "pad2 n = [digit (n div 10), digit n]"

definition pad4 :: "nat \<Rightarrow> string" where
  "pad4 n = [digit (n div 1000), digit (n div 100), digit (n div 10), digit n]"

text \<open>\<^verbatim>\<open>strftime("%Y-%m-%d_%H%M%S")\<close>\<close>

definition strftime :: "datetime \<Rightarrow> string" where
  "strftime t =
     pad4 (year t) @ ''-'' @ pad2 (month t) @ ''-'' @ pad2 (day t) @ ''_'' @
     pad2 (hour t) @ pad2 (minute t) @ pad2 (second t)"

section \<open>The script\<close>

definition OUT_DIR :: path where
  "OUT_DIR = ''./output-transcripts''"

text \<open>
  \<^verbatim>\<open>os.makedirs(p, exist_ok=True)\<close>: nothing happens when the directory is there; a
  file of that name, or a \<^verbatim>\<open>mkdir\<close> the system refuses, raises.
\<close>

definition makedirs :: "start_env \<Rightarrow> path \<Rightarrow> bool \<Rightarrow> world \<Rightarrow> outcome" where
  "makedirs se p exist_ok w =
     (let w1 = emit (EvMakedirs p) w in
      if p \<in> dirs w1 then (if exist_ok then Inr w1 else Inl (FileExistsError, w1))
      else if files w1 p \<noteq> None then Inl (FileExistsError, w1)
      else
        (case mkdir se of
           Some err \<Rightarrow> Inl (err, w1)
         | None \<Rightarrow> Inr (emit (EvMkdir p) (w1\<lparr>dirs := insert p (dirs w1)\<rparr>))))"

text \<open>Lines 6 to 8: the module-level statements that run before the loop.\<close>

definition startup :: "start_env \<Rightarrow> world \<Rightarrow> outcome" where
  "startup se w =
     (let w1 = emit (EvLoadModel ''base'') w in
      case load_model se of
        Some err \<Rightarrow> Inl (err, w1)
      | None \<Rightarrow> makedirs se OUT_DIR True w1)"

text \<open>
  \<^verbatim>\<open>record_chunk(filename="temp.wav", duration=60)\<close>. The argument
  \<^verbatim>\<open>int(duration * fs)\<close> is evaluated before \<^verbatim>\<open>sd.rec\<close> is called; where \<^verbatim>\<open>int\<close>
  raises, no call is made.
\<close>

definition record_chunk :: "iter_env \<Rightarrow> path \<Rightarrow> pynum \<Rightarrow> world \<Rightarrow> outcome" where
  "record_chunk e filename duration w =
     (let w1 = emit (EvPrint (''Recording '' @ py_str e duration @ ''s...'')) w;
          fs = 16000
      in case py_int (py_mul duration fs) of
           Inl err \<Rightarrow> Inl (err, w1)
         | Inr frames \<Rightarrow>
             (let w2 = emit (EvRec frames fs 1) w1 in
              case sd_rec e frames fs 1 of
                Inl err \<Rightarrow> Inl (err, w2)
              | Inr audio \<Rightarrow>
                  (let w3 = emit EvWait w2 in
                   case sd_wait e of
                     Some err \<Rightarrow> Inl (err, w3)
                   | None \<Rightarrow>
                       (let w4 = emit (EvSfWrite filename fs) w3 in
                        case sf_write e of
                          Some err \<Rightarrow> Inl (err, w4)
                        | None \<Rightarrow> Inr (store filename (Wav audio fs) w4)))))"

definition out_path_of :: "datetime \<Rightarrow> path" where
  "out_path_of t = OUT_DIR @ ''/voice_'' @ strftime t @ ''.txt''"

text \<open>
  \<^verbatim>\<open>transcribe_to_file(wav_path)\<close>. Opening in mode \<^verbatim>\<open>"w"\<close> creates the file or
  empties it; \<^verbatim>\<open>result['text']\<close> is looked up after that, inside the \<^verbatim>\<open>with\<close> block.
\<close>

definition transcribe_to_file :: "iter_env \<Rightarrow> path \<Rightarrow> world \<Rightarrow> outcome" where
  "transcribe_to_file e wav_path w =
     (let w1 = emit (EvTranscribe wav_path) w in
      case MODEL_transcribe e (files w1 wav_path) of
        Inl err \<Rightarrow> Inl (err, w1)
      | Inr result \<Rightarrow>
          (let w2 = emit EvNow w1;
               out_path = out_path_of (datetime_now e);
               w3 = emit (EvOpen out_path) w2
           in case open_w e of
                Some err \<Rightarrow> Inl (err, w3)
              | None \<Rightarrow>
                  (let w4 = store out_path (Txt []) w3 in
                   case result ''text'' of
                     None \<Rightarrow> Inl (KeyError ''text'', w4)
                   | Some txt \<Rightarrow>
                       (let w5 = emit (EvWrite out_path) w4 in
                        case f_write e of
                          Some err \<Rightarrow> Inl (err, w5)
                        | None \<Rightarrow>
                            Inr (emit (EvPrint (''Saved transcript to '' @ out_path))
                                   (store out_path (Txt txt) w5))))))"

text \<open>
  Lines 26 to 28: the body of \<^verbatim>\<open>while True\<close>. \<^verbatim>\<open>record_chunk()\<close> is called with its
  defaults, the file name \<^verbatim>\<open>"temp.wav"\<close> and the duration 60; \<^verbatim>\<open>transcribe_to_file\<close>
  is given the literal \<^verbatim>\<open>"temp.wav"\<close>.
\<close>

definition loop_body :: "iter_env \<Rightarrow> world \<Rightarrow> outcome" where
  "loop_body e w =
     (case record_chunk e ''temp.wav'' (PyInt 60) w of
        Inl x \<Rightarrow> Inl x
      | Inr w1 \<Rightarrow>
          (case transcribe_to_file e ''temp.wav'' w1 of
             Inl x \<Rightarrow> Inl x
           | Inr w2 \<Rightarrow> Inr (emit (EvSleep 2) w2)))"

text \<open>
  \<^verbatim>\<open>while True\<close>: iteration \<open>i\<close> reads the answers \<open>env i\<close>. The loop has no exit of
  its own; the value \<open>None\<close> is the run that never returns, \<open>Some (err, w)\<close> the
  exception that ends the process and the world it leaves.
\<close>

partial_function (option) main_loop :: "(nat \<Rightarrow> iter_env) \<Rightarrow> nat \<Rightarrow> world \<Rightarrow> (error \<times> world) option" where
  "main_loop env i w =
     (case loop_body (env i) w of
        Inl x \<Rightarrow> Some x
      | Inr w' \<Rightarrow> main_loop env (Suc i) w')"

text \<open>The first \<open>n\<close> iterations of the loop, starting with iteration \<open>i\<close>.\<close>

fun iterate :: "(nat \<Rightarrow> iter_env) \<Rightarrow> nat \<Rightarrow> nat \<Rightarrow> world \<Rightarrow> outcome" where
  "iterate env i 0 w = Inr w"
| "iterate env i (Suc n) w =
     (case loop_body (env i) w of
        Inl x \<Rightarrow> Inl x
      | Inr w' \<Rightarrow> iterate env (Suc i) n w')"

text \<open>The whole script: the module-level statements, then the loop.\<close>

definition script :: "start_env \<Rightarrow> (nat \<Rightarrow> iter_env) \<Rightarrow> world \<Rightarrow> (error \<times> world) option" where
  "script se env w =
     (case startup se w of
        Inl x \<Rightarrow> Some x
      | Inr w' \<Rightarrow> main_loop env 0 w')"

section \<open>Observations on a run\<close>

text \<open>The external calls made between the world \<open>w\<close> and a later world \<open>w'\<close>.\<close>

definition new_events :: "world \<Rightarrow> world \<Rightarrow> event list" where
  "new_events w w' = drop (length (trace w)) (trace w')"

text \<open>
  The external calls of one iteration that runs to its end, in program order: the
  recording (lines 11 to 15), the transcription (line 18), the writing of the transcript
  (lines 19 to 23) and the pause (line 28).
\<close>

definition steps :: "iter_env \<Rightarrow> event list" where
  "steps e =
     [EvPrint ''Recording 60s...'', EvRec 960000 16000 1, EvWait, EvSfWrite ''temp.wav'' 16000,
      EvTranscribe ''temp.wav'',
      EvNow, EvOpen (out_path_of (datetime_now e)), EvWrite (out_path_of (datetime_now e)),
      EvPrint (''Saved transcript to '' @ out_path_of (datetime_now e)),
      EvSleep 2]"

text \<open>
  The contract of \<^verbatim>\<open>sd.rec\<close>: the array it returns has one row per requested frame
  and one column per requested channel.
\<close>

definition shaped :: "int \<Rightarrow> int \<Rightarrow> audio \<Rightarrow> bool" where
  "shaped frames channels a =
     (int (length a) = frames \<and> list_all (\<lambda>f. int (length f) = channels) a)"

text \<open>The values a \<^verbatim>\<open>datetime\<close> object can hold.\<close>

definition valid_datetime :: "datetime \<Rightarrow> bool" where
  "valid_datetime t =
     (1 \<le> year t \<and> year t \<le> 9999 \<and> 1 \<le> month t \<and> month t \<le> 12 \<and>
      1 \<le> day t \<and> day t \<le> 31 \<and> hour t < 24 \<and> minute t < 60 \<and> second t < 60 \<and>
      microsecond t < 1000000)"

text \<open>
  The timestamp format as the specification writes it: in a pattern such as
  \<^verbatim>\<open>YYYY-MM-DD_HHMMSS\<close> each of the letters Y, M, D, H, S stands for one decimal
  digit and every other character for itself.
\<close>

definition is_digit :: "char \<Rightarrow> bool" where
  "is_digit c = (c \<in> set ''0123456789'')"

fun matches :: "string \<Rightarrow> string \<Rightarrow> bool" where
  "matches [] [] = True"
| "matches (p # ps) (c # cs) =
     ((if p \<in> set ''YMDHS'' then is_digit c else c = p) \<and> matches ps cs)"
| "matches _ _ = False"

text \<open>Reading the fields back from a timestamp of that format.\<close>

definition digit_value :: "char \<Rightarrow> nat" where
  "digit_value c = of_char c - 48"

definition number :: "string \<Rightarrow> nat" where
  "number s = foldl (\<lambda>n c. 10 * n + digit_value c) 0 s"

definition strptime :: "string \<Rightarrow> datetime" where
  "strptime s =
     \<lparr>year = number (take 4 s), month = number (take 2 (drop 5 s)),
      day = number (take 2 (drop 8 s)), hour = number (take 2 (drop 11 s)),
      minute = number (take 2 (drop 13 s)), second = number (take 2 (drop 15 s)),
      microsecond = 0\<rparr>"

text \<open>The files of the output directory.\<close>

definition in_out_dir :: "path \<Rightarrow> bool" where
  "in_out_dir p = (take (Suc (length OUT_DIR)) p = OUT_DIR @ ''/'')"

definition transcripts :: "world \<Rightarrow> path set" where
  "transcripts w = {p \<in> dom (files w). in_out_dir p}"

section \<open>Sample inputs\<close>

text \<open>
  A device that records silence, a model that hears the same words in every chunk, and
  a clock that stands at \<open>t\<close>. The one float printed below is \<^verbatim>\<open>1.001\<close>.
\<close>

definition quiet_env :: "string \<Rightarrow> datetime \<Rightarrow> iter_env" where
  "quiet_env txt t =
     \<lparr>sd_rec = (\<lambda>frames samplerate channels.
         if frames < 0 then Inl PortAudioError
         else Inr (replicate (nat frames) (replicate (nat channels) 0))),
      sd_wait = None,
      sf_write = None,
      MODEL_transcribe = (\<lambda>c. case c of
         Some (Wav a sr) \<Rightarrow> Inr [''text'' \<mapsto> txt, ''language'' \<mapsto> ''en'']
       | _ \<Rightarrow> Inl RuntimeError),
      datetime_now = t,
      open_w = None,
      f_write = None,
      float_repr = (\<lambda>m x. ''1.001'')\<rparr>"

definition morning :: datetime where
  "morning = \<lparr>year = 2024, month = 5, day = 17, hour = 9, minute = 3, second = 7,
     microsecond = 250000\<rparr>"

text \<open>A clock that is one second further at every iteration.\<close>

definition ticking :: "nat \<Rightarrow> iter_env" where
  "ticking i = quiet_env '' hello'' (morning\<lparr>second := 7 + i mod 50\<rparr>)"

text \<open>The same, until the device is unplugged during the third recording.\<close>

definition unplugged :: "nat \<Rightarrow> iter_env" where
  "unplugged i =
     (if i < 2 then ticking i
      else (ticking i)\<lparr>sd_rec := (\<lambda>frames samplerate channels. Inl PortAudioError)\<rparr>)"

definition fresh_world :: world where
  "fresh_world = \<lparr>files = Map.empty, dirs = {}, trace = []\<rparr>"

text \<open>A world left behind by an earlier run: the directory and one transcript in it.\<close>

definition used_world :: world where
  "used_world =
     \<lparr>files = [''./output-transcripts/voice_2024-05-16_080000.txt'' \<mapsto> Txt '' old''],
      dirs = {''./output-transcripts''},
      trace = []\<rparr>"

definition fine_start :: start_env where
  "fine_start = \<lparr>load_model = None, mkdir = None\<rparr>"

section \<open>Basic facts\<close>

lemma str_int_60: "str_int 60 = ''60''"
  by (simp add: str_int_def str_nat.simps digit_def)

lemma emit_simps [simp]:
  "trace (emit ev w) = trace w @ [ev]"
  "files (emit ev w) = files w"
  "dirs (emit ev w) = dirs w"
  by (simp_all add: emit_def)

lemma store_simps [simp]:
  "trace (store p c w) = trace w"
  "files (store p c w) = (files w)(p \<mapsto> c)"
  "dirs (store p c w) = dirs w"
  by (simp_all add: store_def)

lemma out_path_not_temp [simp]: "out_path_of t \<noteq> ''temp.wav''"
  by (simp add: out_path_of_def OUT_DIR_def)

lemma record_chunk_Inr:
  "record_chunk e filename (PyInt d) w = Inr w' \<longleftrightarrow>
     (\<exists>a. sd_rec e (d * 16000) 16000 1 = Inr a \<and> sd_wait e = None \<and> sf_write e = None \<and>
          w' = \<lparr>files = (files w)(filename \<mapsto> Wav a 16000), dirs = dirs w,
                trace = trace w @ [EvPrint (''Recording '' @ str_int d @ ''s...''),
                  EvRec (d * 16000) 16000 1, EvWait, EvSfWrite filename 16000]\<rparr>)"
  by (auto simp: record_chunk_def Let_def emit_def store_def split: sum.splits option.splits)

lemma transcribe_to_file_Inr:
  "transcribe_to_file e wav_path w = Inr w' \<longleftrightarrow>
     (\<exists>r t. MODEL_transcribe e (files w wav_path) = Inr r \<and> open_w e = None \<and>
          r ''text'' = Some t \<and> f_write e = None \<and>
          w' = \<lparr>files = (files w)(out_path_of (datetime_now e) \<mapsto> Txt t), dirs = dirs w,
                trace = trace w @ [EvTranscribe wav_path, EvNow,
                  EvOpen (out_path_of (datetime_now e)), EvWrite (out_path_of (datetime_now e)),
                  EvPrint (''Saved transcript to '' @ out_path_of (datetime_now e))]\<rparr>)"
  by (auto simp: transcribe_to_file_def Let_def emit_def store_def split: sum.splits option.splits)

lemma record_chunk_ok:
  "sd_rec e (d * 16000) 16000 1 = Inr a \<Longrightarrow> sd_wait e = None \<Longrightarrow> sf_write e = None \<Longrightarrow>
   record_chunk e filename (PyInt d) w =
     Inr \<lparr>files = (files w)(filename \<mapsto> Wav a 16000), dirs = dirs w,
          trace = trace w @ [EvPrint (''Recording '' @ str_int d @ ''s...''),
                  EvRec (d * 16000) 16000 1, EvWait, EvSfWrite filename 16000]\<rparr>"
  by (simp add: record_chunk_Inr)

lemma transcribe_to_file_ok:
  "MODEL_transcribe e (files w wav_path) = Inr r \<Longrightarrow> open_w e = None \<Longrightarrow>
   r ''text'' = Some t \<Longrightarrow> f_write e = None \<Longrightarrow>
   transcribe_to_file e wav_path w =
     Inr \<lparr>files = (files w)(out_path_of (datetime_now e) \<mapsto> Txt t), dirs = dirs w,
          trace = trace w @ [EvTranscribe wav_path, EvNow,
                  EvOpen (out_path_of (datetime_now e)), EvWrite (out_path_of (datetime_now e)),
                  EvPrint (''Saved transcript to '' @ out_path_of (datetime_now e))]\<rparr>"
  by (simp add: transcribe_to_file_Inr)

lemma loop_body_ok:
  assumes "sd_rec e 960000 16000 1 = Inr a" "sd_wait e = None" "sf_write e = None"
    "MODEL_transcribe e (Some (Wav a 16000)) = Inr r" "open_w e = None"
    "r ''text'' = Some t" "f_write e = None"
  shows "loop_body e w =
     Inr \<lparr>files = (files w)(''temp.wav'' \<mapsto> Wav a 16000,
                         out_path_of (datetime_now e) \<mapsto> Txt t),
          dirs = dirs w, trace = trace w @ steps e\<rparr>"
proof -
  have rc: "record_chunk e ''temp.wav'' (PyInt 60) w =
     Inr \<lparr>files = (files w)(''temp.wav'' \<mapsto> Wav a 16000), dirs = dirs w,
          trace = trace w @ [EvPrint (''Recording '' @ str_int 60 @ ''s...''),
                  EvRec (60 * 16000) 16000 1, EvWait, EvSfWrite ''temp.wav'' 16000]\<rparr>"
    using assms(1-3) by (intro record_chunk_ok) simp_all
  show ?thesis
    unfolding loop_body_def rc sum.case
    by (subst transcribe_to_file_ok [where r = r and t = t])
       (use assms in \<open>simp_all add: steps_def str_int_60 emit_def\<close>)
qed

lemma loop_body_Inr:
  "loop_body e w = Inr w' \<longleftrightarrow>
     (\<exists>a r t. sd_rec e 960000 16000 1 = Inr a \<and> sd_wait e = None \<and> sf_write e = None \<and>
          MODEL_transcribe e (Some (Wav a 16000)) = Inr r \<and> open_w e = None \<and>
          r ''text'' = Some t \<and> f_write e = None \<and>
          w' = \<lparr>files = (files w)(''temp.wav'' \<mapsto> Wav a 16000,
                         out_path_of (datetime_now e) \<mapsto> Txt t),
                dirs = dirs w, trace = trace w @ steps e\<rparr>)"
proof
  assume "loop_body e w = Inr w'"
  then show "\<exists>a r t. sd_rec e 960000 16000 1 = Inr a \<and> sd_wait e = None \<and> sf_write e = None \<and>
          MODEL_transcribe e (Some (Wav a 16000)) = Inr r \<and> open_w e = None \<and>
          r ''text'' = Some t \<and> f_write e = None \<and>
          w' = \<lparr>files = (files w)(''temp.wav'' \<mapsto> Wav a 16000,
                         out_path_of (datetime_now e) \<mapsto> Txt t),
                dirs = dirs w, trace = trace w @ steps e\<rparr>"
    unfolding loop_body_def
    by (auto simp: record_chunk_Inr transcribe_to_file_Inr steps_def str_int_60 emit_def
        split: sum.splits)
next
  assume "\<exists>a r t. sd_rec e 960000 16000 1 = Inr a \<and> sd_wait e = None \<and> sf_write e = None \<and>
          MODEL_transcribe e (Some (Wav a 16000)) = Inr r \<and> open_w e = None \<and>
          r ''text'' = Some t \<and> f_write e = None \<and>
          w' = \<lparr>files = (files w)(''temp.wav'' \<mapsto> Wav a 16000,
                         out_path_of (datetime_now e) \<mapsto> Txt t),
                dirs = dirs w, trace = trace w @ steps e\<rparr>"
  then show "loop_body e w = Inr w'"
    by (auto simp: loop_body_ok)
qed


section \<open>The loop, iteration by iteration\<close>

lemma iterate_snoc:
  "iterate env i (Suc n) w =
     (case iterate env i n w of Inl x \<Rightarrow> Inl x | Inr w' \<Rightarrow> loop_body (env (i + n)) w')"
proof (induction n arbitrary: i w)
  case 0
  show ?case by (simp split: sum.splits)
next
  case (Suc n)
  show ?case
  proof (cases "loop_body (env i) w")
    case (Inl x)
    then show ?thesis by simp
  next
    case (Inr w1)
    have a: "iterate env i (Suc (Suc n)) w = iterate env (Suc i) (Suc n) w1"
      by (subst iterate.simps(2)) (simp add: Inr del: iterate.simps)
    have b: "iterate env i (Suc n) w = iterate env (Suc i) n w1"
      by (subst iterate.simps(2)) (simp add: Inr del: iterate.simps)
    show ?thesis
      unfolding a b Suc.IH [of "Suc i" w1] add_Suc_shift ..
  qed
qed

lemma iterate_main_loop:
  "iterate env i n w = Inr w' \<Longrightarrow> main_loop env i w = main_loop env (i + n) w'"
proof (induction n arbitrary: i w)
  case 0
  then show ?case by simp
next
  case (Suc n)
  then obtain w1 where w1: "loop_body (env i) w = Inr w1"
    and rest: "iterate env (Suc i) n w1 = Inr w'"
    by (auto split: sum.splits)
  have "main_loop env i w = main_loop env (Suc i) w1"
    by (subst main_loop.simps) (simp add: w1)
  also have "\<dots> = main_loop env (Suc i + n) w'"
    by (rule Suc.IH [OF rest])
  finally show ?case by simp
qed

lemma iterate_fails_main_loop:
  "iterate env i n w = Inl x \<Longrightarrow> main_loop env i w = Some x"
proof (induction n arbitrary: i w)
  case 0
  then show ?case by simp
next
  case (Suc n)
  show ?case
  proof (cases "loop_body (env i) w")
    case (Inl y)
    with Suc.prems have "y = x" by simp
    with Inl show ?thesis by (subst main_loop.simps) simp
  next
    case (Inr w1)
    with Suc.prems have "iterate env (Suc i) n w1 = Inl x" by simp
    then have "main_loop env (Suc i) w1 = Some x" by (rule Suc.IH)
    with Inr show ?thesis by (subst main_loop.simps) simp
  qed
qed

lemma main_loop_returns_failure:
  assumes "main_loop env i w = Some x"
  shows "\<exists>n w'. iterate env i n w = Inr w' \<and> loop_body (env (i + n)) w' = Inl x"
proof (rule main_loop.raw_induct [OF _ assms], goal_cases)
  case (1 main_loop' env i w x)
  show ?case
  proof (cases "loop_body (env i) w")
    case (Inl y)
    with 1(2) have "y = x" by simp
    with Inl have "iterate env i 0 w = Inr w \<and> loop_body (env (i + 0)) w = Inl x" by simp
    then show ?thesis by blast
  next
    case (Inr w1)
    with 1(2) have "main_loop' env (Suc i) w1 = Some x" by simp
    then obtain n w' where "iterate env (Suc i) n w1 = Inr w'"
      "loop_body (env (Suc i + n)) w' = Inl x"
      using 1(1) by blast
    with Inr have "iterate env i (Suc n) w = Inr w' \<and> loop_body (env (i + Suc n)) w' = Inl x"
      by simp
    then show ?thesis by blast
  qed
qed

lemma main_loop_ends:
  assumes "iterate env 0 n w = Inr wn" and "loop_body (env n) wn = Inl x"
  shows "main_loop env 0 w = Some x"
proof -
  have "main_loop env 0 w = main_loop env n wn"
    using iterate_main_loop [OF assms(1)] by simp
  also have "\<dots> = Some x"
    by (subst main_loop.simps) (simp add: assms(2))
  finally show ?thesis .
qed

lemma iterate_trace:
  "iterate env i n w = Inr w' \<Longrightarrow>
   trace w' = trace w @ concat (map (\<lambda>k. steps (env k)) [i..<i + n]) \<and> dirs w' = dirs w"
proof (induction n arbitrary: w')
  case 0
  then show ?case by simp
next
  case (Suc n)
  from Suc.prems obtain w1 where w1: "iterate env i n w = Inr w1"
    and last: "loop_body (env (i + n)) w1 = Inr w'"
    unfolding iterate_snoc by (auto split: sum.splits)
  from last have "trace w' = trace w1 @ steps (env (i + n))" "dirs w' = dirs w1"
    by (auto simp: loop_body_Inr)
  with Suc.IH [OF w1] show ?case by simp
qed

section \<open>Recording\<close>

lemma new_events_append [simp]: "trace w' = trace w @ evs \<Longrightarrow> new_events w w' = evs"
  by (simp add: new_events_def)

lemma round_shift_0 [simp]: "round_shift m 0 = m"
  by (simp add: round_shift_def)

lemma bitlen_1001: "bitlen 72129651631965856000 = 66" "bitlen 8804889115230207 = 53"
  by (simp_all add: bitlen.simps)

lemma round_shift_1001: "round_shift 72129651631965856000 13 = 8804889115230207"
  by (simp add: round_shift_def Let_def)

lemma round_double_1001:
  "round_double 72129651631965856000 (- 52) = PyFloat 8804889115230207 (- 39)"
proof -
  have a: "nat \<bar>72129651631965856000 :: int\<bar> = 72129651631965856000"
    by simp
  have s: "nat (max (int (bitlen 72129651631965856000) - 53) (- 1074 - (- 52))) = 13"
    unfolding bitlen_1001 by simp
  show ?thesis
    unfolding round_double_def a Let_def s
    by (simp add: round_shift_1001 bitlen_1001)
qed

lemma mul_1001: "py_mul (PyFloat 4508103226997866 (- 52)) 16000 = PyFloat 8804889115230207 (- 39)"
  using round_double_1001 by simp

lemma int_1001: "py_int (py_mul (PyFloat 4508103226997866 (- 52)) 16000) = Inr 16015"
  unfolding mul_1001 by simp


lemma round_double_exact:
  assumes "bitlen (nat \<bar>m\<bar>) \<le> 53" and "- 1074 \<le> x" and "m \<noteq> 0"
  shows "round_double m x =
    (if 1024 < int (bitlen (nat \<bar>m\<bar>)) + x then (if m < 0 then PyNegInf else PyInf)
     else PyFloat m x)"
proof -
  from assms(1,2) have s: "nat (max (int (bitlen (nat \<bar>m\<bar>)) - 53) (- 1074 - x)) = 0"
    by simp
  from assms(3) have a: "nat \<bar>m\<bar> \<noteq> 0" "(if m < 0 then - int (nat \<bar>m\<bar>) else int (nat \<bar>m\<bar>)) = m"
    by simp_all
  show ?thesis
    unfolding round_double_def Let_def s round_shift_0 using a
    by simp
qed

lemma record_chunk_returns:
  "record_chunk e filename D w = Inr w' \<longleftrightarrow>
     (\<exists>n a. py_int (py_mul D 16000) = Inr n \<and> sd_rec e n 16000 1 = Inr a \<and>
          sd_wait e = None \<and> sf_write e = None \<and>
          w' = \<lparr>files = (files w)(filename \<mapsto> Wav a 16000), dirs = dirs w,
                trace = trace w @ [EvPrint (''Recording '' @ py_str e D @ ''s...''),
                  EvRec n 16000 1, EvWait, EvSfWrite filename 16000]\<rparr>)"
  by (auto simp: record_chunk_def Let_def emit_def store_def split: sum.splits option.splits)

text \<open>
  C2, as the specification states it, fails for a float duration: for the double nearest
  to 1.001 (within half a unit in the last place), Python's product with 16000 is
  rounded to a double below 16016 and \<^verbatim>\<open>int\<close> truncates it, so 16015 frames are
  requested and stored, fewer than the duration times the sample rate.
\<close>

theorem record_chunk_float_counterexample:
  "\<bar>1000 * 4508103226997866 - 1001 * 2 ^ 52\<bar> \<le> (500 :: int) \<and>
   py_int (py_mul (PyFloat 4508103226997866 (- 52)) 16000) = Inr 16015 \<and>
   record_chunk (quiet_env '' hello'' morning) ''temp.wav'' (PyFloat 4508103226997866 (- 52))
       fresh_world =
     Inr \<lparr>files = [''temp.wav'' \<mapsto> Wav (replicate 16015 [0]) 16000], dirs = {},
          trace = [EvPrint ''Recording 1.001s...'', EvRec 16015 16000 1, EvWait,
                   EvSfWrite ''temp.wav'' 16000]\<rparr> \<and>
   length (replicate 16015 [0 :: int]) = 16015 \<and>
   (16015 :: int) * 2 ^ 52 < 4508103226997866 * 16000"
proof -
  have c1: "\<bar>1000 * 4508103226997866 - 1001 * 2 ^ 52\<bar> \<le> (500 :: int)"
    by simp
  have c3: "record_chunk (quiet_env '' hello'' morning) ''temp.wav''
       (PyFloat 4508103226997866 (- 52)) fresh_world =
     Inr \<lparr>files = [''temp.wav'' \<mapsto> Wav (replicate 16015 [0]) 16000], dirs = {},
          trace = [EvPrint ''Recording 1.001s...'', EvRec 16015 16000 1, EvWait,
                   EvSfWrite ''temp.wav'' 16000]\<rparr>"
    unfolding record_chunk_returns int_1001
    by (simp add: quiet_env_def fresh_world_def)
  have c4: "length (replicate 16015 [0 :: int]) = 16015"
    by simp
  have c5: "(16015 :: int) * 2 ^ 52 < 4508103226997866 * 16000"
    by simp
  show ?thesis
    by (intro conjI c1 int_1001 c3 c4 c5)
qed

text \<open>
  C2, amended. For every duration \<open>D\<close>, a call of \<open>record_chunk\<close> that returns has made
  one request to the device, for \<^verbatim>\<open>int(D * 16000)\<close> frames at 16000 Hz on one channel,
  and has stored under the file name, at 16000 Hz, the buffer the device returned for
  it; that buffer has exactly the requested number of frames, of one sample each, when
  the device returns the shape it was asked for. The number of frames is \<open>D * 16000\<close>
  for an int \<open>D\<close>; for a float whose product with 16000 needs no rounding it is that
  product, truncated toward zero.
\<close>

theorem record_chunk_buffer:
  assumes "record_chunk e filename D w = Inr w'"
  shows "\<exists>n a. py_int (py_mul D 16000) = Inr n \<and>
           sd_rec e n 16000 1 = Inr a \<and>
           files w' filename = Some (Wav a 16000) \<and>
           new_events w w' =
             [EvPrint (''Recording '' @ py_str e D @ ''s...''), EvRec n 16000 1,
              EvWait, EvSfWrite filename 16000] \<and>
           (shaped n 1 a \<longrightarrow> int (length a) = n \<and> (\<forall>f \<in> set a. length f = 1)) \<and>
           (\<forall>d. D = PyInt d \<longrightarrow> n = d * 16000) \<and>
           (\<forall>m x. D = PyFloat m x \<and> bitlen (nat \<bar>m * 16000\<bar>) \<le> 53 \<and> - 1074 \<le> x \<longrightarrow>
              Inr n = py_int (PyFloat (m * 16000) x))"
proof -
  from assms obtain n a where n: "py_int (py_mul D 16000) = Inr n"
    and a: "sd_rec e n 16000 1 = Inr a"
    and w': "w' = \<lparr>files = (files w)(filename \<mapsto> Wav a 16000), dirs = dirs w,
                trace = trace w @ [EvPrint (''Recording '' @ py_str e D @ ''s...''),
                  EvRec n 16000 1, EvWait, EvSfWrite filename 16000]\<rparr>"
    unfolding record_chunk_returns by blast
  have f: "files w' filename = Some (Wav a 16000)"
    by (simp add: w')
  have t: "new_events w w' =
             [EvPrint (''Recording '' @ py_str e D @ ''s...''), EvRec n 16000 1,
              EvWait, EvSfWrite filename 16000]"
    by (simp add: w')
  have s: "shaped n 1 a \<longrightarrow> int (length a) = n \<and> (\<forall>f \<in> set a. length f = 1)"
    by (auto simp: shaped_def list_all_iff)
  have i: "\<forall>d. D = PyInt d \<longrightarrow> n = d * 16000"
    using n by auto
  have x: "\<forall>m x. D = PyFloat m x \<and> bitlen (nat \<bar>m * 16000\<bar>) \<le> 53 \<and> - 1074 \<le> x \<longrightarrow>
              Inr n = py_int (PyFloat (m * 16000) x)"
  proof (intro allI impI, elim conjE)
    fix m x
    assume D: "D = PyFloat m x" and b: "bitlen (nat \<bar>m * 16000\<bar>) \<le> 53" and x: "- 1074 \<le> x"
    show "Inr n = py_int (PyFloat (m * 16000) x)"
    proof (cases "m = 0")
      case True
      with n D show ?thesis by simp
    next
      case False
      then have "m * 16000 \<noteq> 0" by simp
      from round_double_exact [OF b x this] n D False show ?thesis
        by (simp split: if_splits)
    qed
  qed
  from n a f t s i x show ?thesis
    by blast
qed

theorem record_chunk_buffer_witness:
  "record_chunk (quiet_env '' hello'' morning) ''temp.wav'' (PyInt 60) fresh_world =
     Inr \<lparr>files = [''temp.wav'' \<mapsto> Wav (replicate 960000 [0]) 16000], dirs = {},
          trace = [EvPrint ''Recording 60s...'', EvRec 960000 16000 1, EvWait,
                   EvSfWrite ''temp.wav'' 16000]\<rparr>
   \<and> py_int (py_mul (PyInt 60) 16000) = Inr 960000
   \<and> shaped 960000 1 (replicate 960000 [0])
   \<and> length (replicate 960000 [0::int]) = 960000"
proof -
  have h: "record_chunk (quiet_env '' hello'' morning) ''temp.wav'' (PyInt 60) fresh_world =
     Inr \<lparr>files = [''temp.wav'' \<mapsto> Wav (replicate 960000 [0]) 16000], dirs = {},
          trace = [EvPrint ''Recording 60s...'', EvRec 960000 16000 1, EvWait,
                   EvSfWrite ''temp.wav'' 16000]\<rparr>"
    unfolding record_chunk_returns
    by (simp add: quiet_env_def fresh_world_def str_int_60)
  have s: "shaped 960000 1 (replicate 960000 [0])"
    by (simp add: shaped_def list_all_iff)
  from record_chunk_buffer [OF h] h s show ?thesis
    by simp
qed

section \<open>The timestamp\<close>

lemma is_digit_digit [simp]: "is_digit (digit n)"
  unfolding is_digit_def digit_def by (rule nth_mem) simp

lemma digit_value_digit [simp]: "digit_value (digit n) = n mod 10"
proof -
  have "k < 10 \<Longrightarrow> k \<in> {0, 1, 2, 3, 4, 5, 6, 7, 8, 9}" for k :: nat
    by auto
  moreover have "n mod 10 < 10"
    by simp
  ultimately have "n mod 10 \<in> {0, 1, 2, 3, 4, 5, 6, 7, 8, 9}"
    by blast
  then show ?thesis
    unfolding digit_def digit_value_def
    by (elim insertE emptyE) simp_all
qed

lemma number_pad2: "n < 100 \<Longrightarrow> number (pad2 n) = n"
  by (simp add: number_def pad2_def)

lemma number_pad4:
  assumes "n < 10000"
  shows "number (pad4 n) = n"
proof -
  define a where "a = n div 10"
  define b where "b = a div 10"
  define c where "c = b div 10"
  have d: "n div 100 = b" "n div 1000 = c"
    by (simp_all add: a_def b_def c_def div_mult2_eq)
  from assms have "c < 10"
    unfolding d(2) [symmetric] by simp
  then have c: "c mod 10 = c"
    by simp
  have "number (pad4 n) = 10 * (10 * (10 * (c mod 10) + b mod 10) + a mod 10) + n mod 10"
    unfolding number_def pad4_def d a_def [symmetric] by simp
  also have "\<dots> = 10 * (10 * (10 * (b div 10) + b mod 10) + a mod 10) + n mod 10"
    using c by (simp add: c_def)
  also have "\<dots> = 10 * (10 * (a div 10) + a mod 10) + n mod 10"
    unfolding b_def by simp
  also have "\<dots> = n"
    unfolding a_def by simp
  finally show ?thesis .
qed

lemma strftime_format: "matches ''YYYY-MM-DD_HHMMSS'' (strftime t)"
  by (simp add: strftime_def pad2_def pad4_def)

lemma strptime_strftime:
  assumes "valid_datetime t"
  shows "strptime (strftime t) = t\<lparr>microsecond := 0\<rparr>"
proof -
  have s: "strftime t = pad4 (year t) @ CHR ''-'' # pad2 (month t) @ CHR ''-'' # pad2 (day t) @
      CHR ''_'' # pad2 (hour t) @ pad2 (minute t) @ pad2 (second t)"
    by (simp add: strftime_def)
  have l [simp]: "length (pad4 n) = 4" "length (pad2 n) = 2" for n
    by (simp_all add: pad2_def pad4_def)
  from assms have b: "year t < 10000" "month t < 100" "day t < 100" "hour t < 100"
    "minute t < 100" "second t < 100"
    by (simp_all add: valid_datetime_def)
  show ?thesis
    unfolding strptime_def s using b
    by (simp add: number_pad2 number_pad4)
qed

lemma strftime_microsecond [simp]: "strftime (t\<lparr>microsecond := m\<rparr>) = strftime t"
  by (simp add: strftime_def)

lemma out_path_microsecond [simp]: "out_path_of (t\<lparr>microsecond := m\<rparr>) = out_path_of t"
  by (simp add: out_path_of_def)

lemma out_path_morning:
  "out_path_of morning = ''./output-transcripts/voice_2024-05-17_090307.txt''"
  by (simp add: morning_def out_path_of_def OUT_DIR_def strftime_def pad2_def pad4_def digit_def)

lemma temp_not_out_path [simp]: "''temp.wav'' \<noteq> out_path_of t"
  by (simp add: out_path_of_def OUT_DIR_def)

lemma transcribe_quiet:
  "transcribe_to_file (quiet_env txt t) ''temp.wav''
      (fresh_world\<lparr>files := [''temp.wav'' \<mapsto> Wav [] 16000]\<rparr>) =
     Inr \<lparr>files = [''temp.wav'' \<mapsto> Wav [] 16000, out_path_of t \<mapsto> Txt txt], dirs = {},
          trace = [EvTranscribe ''temp.wav'', EvNow, EvOpen (out_path_of t),
            EvWrite (out_path_of t), EvPrint (''Saved transcript to '' @ out_path_of t)]\<rparr>"
  by (subst transcribe_to_file_ok
        [where t = "txt" and r = "[''text'' \<mapsto> txt, ''language'' \<mapsto> ''en'']"])
     (simp_all add: quiet_env_def fresh_world_def)

section \<open>Writing the transcript\<close>

text \<open>
  C3. A call of \<open>transcribe_to_file\<close> that returns has changed one file only. Its path is
  \<^verbatim>\<open>./output-transcripts/voice_\<close>, a timestamp and \<^verbatim>\<open>.txt\<close>; the timestamp has the
  form \<^verbatim>\<open>YYYY-MM-DD_HHMMSS\<close> and reads back as the clock's value, to the second, that
  the call took after the transcription and before opening the file.
\<close>

theorem transcript_path_format:
  assumes "transcribe_to_file e wav_path w = Inr w'"
    and "valid_datetime (datetime_now e)"
  shows "\<exists>ts. matches ''YYYY-MM-DD_HHMMSS'' ts \<and>
           strptime ts = (datetime_now e)\<lparr>microsecond := 0\<rparr> \<and>
           files w' (''./output-transcripts/voice_'' @ ts @ ''.txt'') \<noteq> None \<and>
           (\<forall>p. files w' p \<noteq> files w p \<longrightarrow> p = ''./output-transcripts/voice_'' @ ts @ ''.txt'') \<and>
           new_events w w' =
             [EvTranscribe wav_path, EvNow, EvOpen (''./output-transcripts/voice_'' @ ts @ ''.txt''),
              EvWrite (''./output-transcripts/voice_'' @ ts @ ''.txt''),
              EvPrint (''Saved transcript to '' @ ''./output-transcripts/voice_'' @ ts @ ''.txt'')]"
proof -
  let ?ts = "strftime (datetime_now e)"
  have p: "out_path_of (datetime_now e) = ''./output-transcripts/voice_'' @ ?ts @ ''.txt''"
    by (simp add: out_path_of_def OUT_DIR_def)
  from assms(1) obtain t where
    w': "w' = \<lparr>files = (files w)(out_path_of (datetime_now e) \<mapsto> Txt t), dirs = dirs w,
                trace = trace w @ [EvTranscribe wav_path, EvNow,
                  EvOpen (out_path_of (datetime_now e)), EvWrite (out_path_of (datetime_now e)),
                  EvPrint (''Saved transcript to '' @ out_path_of (datetime_now e))]\<rparr>"
    unfolding transcribe_to_file_Inr by blast
  have "matches ''YYYY-MM-DD_HHMMSS'' ?ts"
    by (rule strftime_format)
  moreover have "strptime ?ts = (datetime_now e)\<lparr>microsecond := 0\<rparr>"
    using assms(2) by (rule strptime_strftime)
  moreover have "files w' (''./output-transcripts/voice_'' @ ?ts @ ''.txt'') \<noteq> None"
    unfolding p [symmetric] by (simp add: w')
  moreover have "\<forall>p. files w' p \<noteq> files w p \<longrightarrow> p = ''./output-transcripts/voice_'' @ ?ts @ ''.txt''"
    unfolding p [symmetric] by (simp add: w')
  moreover have "new_events w w' =
             [EvTranscribe wav_path, EvNow, EvOpen (''./output-transcripts/voice_'' @ ?ts @ ''.txt''),
              EvWrite (''./output-transcripts/voice_'' @ ?ts @ ''.txt''),
              EvPrint (''Saved transcript to '' @ ''./output-transcripts/voice_'' @ ?ts @ ''.txt'')]"
    unfolding p [symmetric] by (simp add: w')
  ultimately show ?thesis by blast
qed

theorem transcript_path_format_witness:
  "valid_datetime morning \<and>
   strftime morning = ''2024-05-17_090307'' \<and>
   matches ''YYYY-MM-DD_HHMMSS'' ''2024-05-17_090307'' \<and>
   files (projr (transcribe_to_file (quiet_env '' hello'' morning) ''temp.wav''
      (fresh_world\<lparr>files := [''temp.wav'' \<mapsto> Wav [] 16000]\<rparr>)))
     ''./output-transcripts/voice_2024-05-17_090307.txt'' = Some (Txt '' hello'')"
proof -
  let ?e = "quiet_env '' hello'' morning"
  let ?w = "fresh_world\<lparr>files := [''temp.wav'' \<mapsto> Wav [] 16000]\<rparr>"
  have h1: "transcribe_to_file ?e ''temp.wav'' ?w = Inr (projr (transcribe_to_file ?e ''temp.wav'' ?w))"
    by (simp add: transcribe_quiet)
  have h2: "valid_datetime (datetime_now ?e)"
    by (simp add: quiet_env_def morning_def valid_datetime_def)
  have c1: "valid_datetime morning"
    by (simp add: morning_def valid_datetime_def)
  have c2: "strftime morning = ''2024-05-17_090307''"
    by (simp add: morning_def strftime_def pad2_def pad4_def digit_def)
  have c3: "matches ''YYYY-MM-DD_HHMMSS'' ''2024-05-17_090307''"
    by (simp add: is_digit_def)
  have c4: "files (projr (transcribe_to_file ?e ''temp.wav'' ?w))
     ''./output-transcripts/voice_2024-05-17_090307.txt'' = Some (Txt '' hello'')"
    by (simp add: transcribe_quiet out_path_morning)
  from transcript_path_format [OF h1 h2] c1 c2 c3 c4 show ?thesis
    by blast
qed

text \<open>
  C4. Whatever text the model returns, the empty string included, a call of
  \<open>transcribe_to_file\<close> whose \<open>open\<close> and \<open>write\<close> do not raise opens the output
  file, writes to it and leaves exactly that text in it: the calls made are the same
  five for every text.
\<close>

theorem transcribe_to_file_writes_text:
  assumes "MODEL_transcribe e (files w wav_path) = Inr result"
    and "result ''text'' = Some txt"
    and "open_w e = None"
    and "f_write e = None"
  shows "\<exists>w'. transcribe_to_file e wav_path w = Inr w' \<and>
           files w' (out_path_of (datetime_now e)) = Some (Txt txt) \<and>
           new_events w w' =
             [EvTranscribe wav_path, EvNow, EvOpen (out_path_of (datetime_now e)),
              EvWrite (out_path_of (datetime_now e)),
              EvPrint (''Saved transcript to '' @ out_path_of (datetime_now e))]"
  using assms by (simp add: transcribe_to_file_ok)

theorem transcribe_to_file_writes_text_witness:
  "files (projr (transcribe_to_file (quiet_env [] morning) ''temp.wav''
      (fresh_world\<lparr>files := [''temp.wav'' \<mapsto> Wav [] 16000]\<rparr>)))
     ''./output-transcripts/voice_2024-05-17_090307.txt'' = Some (Txt [])"
proof -
  let ?e = "quiet_env [] morning"
  let ?w = "fresh_world\<lparr>files := [''temp.wav'' \<mapsto> Wav [] 16000]\<rparr>"
  have h1: "MODEL_transcribe ?e (files ?w ''temp.wav'') =
      Inr [''text'' \<mapsto> [], ''language'' \<mapsto> ''en'']"
    by (simp add: quiet_env_def)
  have h2: "[''text'' \<mapsto> [], ''language'' \<mapsto> ''en''] ''text'' = Some []"
    by simp
  have h3: "open_w ?e = None" and h4: "f_write ?e = None"
    by (simp_all add: quiet_env_def)
  have p: "out_path_of (datetime_now ?e) = ''./output-transcripts/voice_2024-05-17_090307.txt''"
    by (simp add: quiet_env_def out_path_morning)
  from transcribe_to_file_writes_text [OF h1 h2 h3 h4] show ?thesis
    unfolding p by auto
qed



section \<open>The temporary audio file\<close>

lemma loop_body_ticking:
  "loop_body (ticking k) w =
     Inr \<lparr>files = (files w)(''temp.wav'' \<mapsto> Wav (replicate 960000 [0]) 16000,
                         out_path_of (datetime_now (ticking k)) \<mapsto> Txt '' hello''),
          dirs = dirs w, trace = trace w @ steps (ticking k)\<rparr>"
  by (rule loop_body_ok [where r = "[''text'' \<mapsto> '' hello'', ''language'' \<mapsto> ''en'']"])
     (simp_all add: ticking_def quiet_env_def)

text \<open>
  C10. In an iteration that runs to its end, the buffer the device returned is stored
  under \<^verbatim>\<open>temp.wav\<close>, the one audio path written is the one path transcribed from, and
  the text left in the transcript file is the text the model returned for exactly that
  stored buffer, whatever the world held before the iteration.
\<close>

theorem transcript_from_same_chunk:
  assumes "loop_body e w = Inr w'"
  shows "\<exists>a r t. sd_rec e 960000 16000 1 = Inr a \<and>
           files w' ''temp.wav'' = Some (Wav a 16000) \<and>
           MODEL_transcribe e (Some (Wav a 16000)) = Inr r \<and> r ''text'' = Some t \<and>
           files w' (out_path_of (datetime_now e)) = Some (Txt t) \<and>
           [p. EvSfWrite p sr \<leftarrow> new_events w w'] = [''temp.wav''] \<and>
           [p. EvTranscribe p \<leftarrow> new_events w w'] = [''temp.wav'']"
proof -
  from assms obtain a r t where *: "sd_rec e 960000 16000 1 = Inr a"
    "MODEL_transcribe e (Some (Wav a 16000)) = Inr r" "r ''text'' = Some t"
    and w': "w' = \<lparr>files = (files w)(''temp.wav'' \<mapsto> Wav a 16000,
                         out_path_of (datetime_now e) \<mapsto> Txt t),
                dirs = dirs w, trace = trace w @ steps e\<rparr>"
    unfolding loop_body_Inr by blast
  have ev: "new_events w w' = steps e"
    by (simp add: w')
  have "files w' ''temp.wav'' = Some (Wav a 16000)"
    by (simp add: w')
  moreover have "files w' (out_path_of (datetime_now e)) = Some (Txt t)"
    by (simp add: w')
  moreover have "[p. EvSfWrite p sr \<leftarrow> new_events w w'] = [''temp.wav'']"
    "[p. EvTranscribe p \<leftarrow> new_events w w'] = [''temp.wav'']"
    unfolding ev by (simp_all add: steps_def)
  ultimately show ?thesis using * by blast
qed

theorem transcript_from_same_chunk_witness:
  "files (projr (loop_body (ticking 0) used_world)) ''temp.wav''
     = Some (Wav (replicate 960000 [0]) 16000) \<and>
   files (projr (loop_body (ticking 0) used_world)) (out_path_of (datetime_now (ticking 0)))
     = Some (Txt '' hello'')"
proof -
  have h: "loop_body (ticking 0) used_world = Inr (projr (loop_body (ticking 0) used_world))"
    by (simp add: loop_body_ticking)
  from transcript_from_same_chunk [OF h] show ?thesis
    by (simp add: loop_body_ticking)
qed

lemma iterate_files:
  "iterate env i n w = Inr w' \<Longrightarrow>
   p = ''temp.wav'' \<or> files w' p = files w p \<or> (\<exists>t. files w' p = Some (Txt t))"
proof (induction n arbitrary: w')
  case 0
  then show ?case by simp
next
  case (Suc n)
  from Suc.prems obtain w1 where w1: "iterate env i n w = Inr w1"
    and last: "loop_body (env (i + n)) w1 = Inr w'"
    unfolding iterate_snoc by (auto split: sum.splits)
  from last obtain a t where
    "files w' = (files w1)(''temp.wav'' \<mapsto> Wav a 16000,
                         out_path_of (datetime_now (env (i + n))) \<mapsto> Txt t)"
    unfolding loop_body_Inr by auto
  with Suc.IH [OF w1] show ?case by auto
qed

lemma iterate_temp:
  "iterate env i (Suc n) w = Inr w' \<Longrightarrow>
   \<exists>a. sd_rec (env (i + n)) 960000 16000 1 = Inr a \<and> files w' ''temp.wav'' = Some (Wav a 16000)"
  unfolding iterate_snoc by (auto split: sum.splits simp: loop_body_Inr)

lemma iterate_new_events:
  "iterate env i n w = Inr w' \<Longrightarrow>
   new_events w w' = concat (map (\<lambda>k. steps (env k)) [i..<i + n])"
  by (simp add: iterate_trace)

text \<open>
  C9. After any number of completed iterations every audio file written went to
  \<^verbatim>\<open>temp.wav\<close>: an audio file under another path is a file that was there before, as
  it was. After at least one iteration \<^verbatim>\<open>temp.wav\<close> holds the buffer of the last
  iteration, whatever it held before.
\<close>

theorem temp_file_reused:
  assumes "iterate env i n w = Inr w'"
  shows "(\<forall>p a sr. p \<noteq> ''temp.wav'' \<and> files w' p = Some (Wav a sr) \<longrightarrow> files w p = Some (Wav a sr)) \<and>
         (\<forall>p sr. EvSfWrite p sr \<in> set (new_events w w') \<longrightarrow> p = ''temp.wav'') \<and>
         (0 < n \<longrightarrow> (\<exists>a. sd_rec (env (i + n - 1)) 960000 16000 1 = Inr a \<and>
                          files w' ''temp.wav'' = Some (Wav a 16000)))"
proof (intro conjI allI impI)
  fix p a sr
  assume "p \<noteq> ''temp.wav'' \<and> files w' p = Some (Wav a sr)"
  with iterate_files [OF assms, of p] show "files w p = Some (Wav a sr)"
    by auto
next
  fix p sr
  assume "EvSfWrite p sr \<in> set (new_events w w')"
  then obtain k where "EvSfWrite p sr \<in> set (steps (env k))"
    unfolding iterate_new_events [OF assms] by auto
  then show "p = ''temp.wav''"
    by (simp add: steps_def)
next
  assume "0 < n"
  then obtain m where n: "n = Suc m"
    by (cases n) auto
  from iterate_temp [OF assms [unfolded n]] n
  show "\<exists>a. sd_rec (env (i + n - 1)) 960000 16000 1 = Inr a \<and>
            files w' ''temp.wav'' = Some (Wav a 16000)"
    by simp
qed

lemma iterate_ticking_3:
  "iterate ticking 0 3 w =
     Inr \<lparr>files = (files w)(''temp.wav'' \<mapsto> Wav (replicate 960000 [0]) 16000,
              out_path_of (datetime_now (ticking 0)) \<mapsto> Txt '' hello'',
              out_path_of (datetime_now (ticking 1)) \<mapsto> Txt '' hello'',
              out_path_of (datetime_now (ticking 2)) \<mapsto> Txt '' hello''),
          dirs = dirs w,
          trace = trace w @ steps (ticking 0) @ steps (ticking 1) @ steps (ticking 2)\<rparr>"
  by (simp add: numeral_3_eq_3 numeral_2_eq_2 loop_body_ticking fun_upd_twist)

theorem temp_file_reused_witness:
  "files (projr (iterate ticking 0 3 (fresh_world\<lparr>files := [''temp.wav'' \<mapsto> Txt ''x'']\<rparr>)))
     ''temp.wav'' = Some (Wav (replicate 960000 [0]) 16000)"
proof -
  let ?w = "fresh_world\<lparr>files := [''temp.wav'' \<mapsto> Txt ''x'']\<rparr>"
  have h: "iterate ticking 0 3 ?w = Inr (projr (iterate ticking 0 3 ?w))"
    by (simp add: iterate_ticking_3)
  from temp_file_reused [OF h] show ?thesis
    by (simp add: iterate_ticking_3)
qed

section \<open>The loop as a whole\<close>

lemma never_failing_iterate:
  assumes "\<forall>k u x. loop_body (env k) u \<noteq> Inl x"
  shows "\<exists>w'. iterate env i n w = Inr w'"
proof (induction n)
  case 0
  show ?case by simp
next
  case (Suc n)
  then obtain w1 where w1: "iterate env i n w = Inr w1" by blast
  from assms obtain w' where "loop_body (env (i + n)) w1 = Inr w'"
    by (cases "loop_body (env (i + n)) w1") auto
  with w1 show ?case
    unfolding iterate_snoc by simp
qed

lemma never_failing_main_loop:
  assumes "\<forall>k u x. loop_body (env k) u \<noteq> Inl x"
  shows "main_loop env i w = None"
proof (cases "main_loop env i w")
  case None
  then show ?thesis .
next
  case (Some x)
  from main_loop_returns_failure [OF Some] assms show ?thesis
    by blast
qed

section \<open>Failures\<close>

lemma record_chunk_raises:
  "sd_rec e (d * 16000) 16000 1 = Inl err \<Longrightarrow>
     record_chunk e f (PyInt d) w = Inl (err, emit (EvRec (d * 16000) 16000 1)
       (emit (EvPrint (''Recording '' @ str_int d @ ''s...'')) w))"
  "sd_rec e (d * 16000) 16000 1 = Inr a \<Longrightarrow> sd_wait e = Some err \<Longrightarrow>
     record_chunk e f (PyInt d) w = Inl (err, emit EvWait (emit (EvRec (d * 16000) 16000 1)
       (emit (EvPrint (''Recording '' @ str_int d @ ''s...'')) w)))"
  "sd_rec e (d * 16000) 16000 1 = Inr a \<Longrightarrow> sd_wait e = None \<Longrightarrow> sf_write e = Some err \<Longrightarrow>
     record_chunk e f (PyInt d) w = Inl (err, emit (EvSfWrite f 16000) (emit EvWait
       (emit (EvRec (d * 16000) 16000 1)
         (emit (EvPrint (''Recording '' @ str_int d @ ''s...'')) w))))"
  by (simp_all add: record_chunk_def Let_def)

lemma transcribe_to_file_raises:
  "MODEL_transcribe e (files w p) = Inl err \<Longrightarrow>
     transcribe_to_file e p w = Inl (err, emit (EvTranscribe p) w)"
  "MODEL_transcribe e (files w p) = Inr r \<Longrightarrow> open_w e = Some err \<Longrightarrow>
     transcribe_to_file e p w = Inl (err, emit (EvOpen (out_path_of (datetime_now e)))
       (emit EvNow (emit (EvTranscribe p) w)))"
  "MODEL_transcribe e (files w p) = Inr r \<Longrightarrow> open_w e = None \<Longrightarrow> r ''text'' = None \<Longrightarrow>
     transcribe_to_file e p w = Inl (KeyError ''text'',
       store (out_path_of (datetime_now e)) (Txt [])
         (emit (EvOpen (out_path_of (datetime_now e))) (emit EvNow (emit (EvTranscribe p) w))))"
  "MODEL_transcribe e (files w p) = Inr r \<Longrightarrow> open_w e = None \<Longrightarrow> r ''text'' = Some t \<Longrightarrow>
   f_write e = Some err \<Longrightarrow>
     transcribe_to_file e p w = Inl (err, emit (EvWrite (out_path_of (datetime_now e)))
       (store (out_path_of (datetime_now e)) (Txt [])
         (emit (EvOpen (out_path_of (datetime_now e))) (emit EvNow (emit (EvTranscribe p) w)))))"
  by (simp_all add: transcribe_to_file_def Let_def)

lemma loop_body_propagates:
  "record_chunk e ''temp.wav'' (PyInt 60) w = Inl x \<Longrightarrow> loop_body e w = Inl x"
  "record_chunk e ''temp.wav'' (PyInt 60) w = Inr w1 \<Longrightarrow> transcribe_to_file e ''temp.wav'' w1 = Inl x \<Longrightarrow>
     loop_body e w = Inl x"
  by (simp_all add: loop_body_def)

lemma startup_fine_fresh:
  "startup fine_start fresh_world =
     Inr \<lparr>files = Map.empty, dirs = {''./output-transcripts''},
          trace = [EvLoadModel ''base'', EvMakedirs ''./output-transcripts'',
                   EvMkdir ''./output-transcripts'']\<rparr>"
  by (simp add: startup_def makedirs_def fine_start_def fresh_world_def emit_def OUT_DIR_def
      Let_def)

lemma loop_body_unplugged:
  "loop_body (unplugged 2) w =
     Inl (PortAudioError, emit (EvRec 960000 16000 1) (emit (EvPrint ''Recording 60s...'') w))"
proof -
  have "sd_rec (unplugged 2) (60 * 16000) 16000 1 = Inl PortAudioError"
    by (simp add: unplugged_def)
  from record_chunk_raises(1) [OF this, of "''temp.wav''" w] show ?thesis
    by (simp add: loop_body_def str_int_60)
qed

lemma iterate_unplugged_2:
  "iterate unplugged 0 2 w = iterate ticking 0 2 w"
  by (simp add: numeral_2_eq_2 unplugged_def loop_body_ticking)

lemma iterate_unplugged_explicit:
  "iterate unplugged 0 2 w =
     Inr \<lparr>files = (files w)(''temp.wav'' \<mapsto> Wav (replicate 960000 [0]) 16000,
              out_path_of (datetime_now (ticking 0)) \<mapsto> Txt '' hello'',
              out_path_of (datetime_now (ticking 1)) \<mapsto> Txt '' hello''),
          dirs = dirs w,
          trace = trace w @ steps (ticking 0) @ steps (ticking 1)\<rparr>"
  unfolding iterate_unplugged_2
  by (simp add: numeral_2_eq_2 loop_body_ticking fun_upd_twist)

text \<open>
  C7. Whatever raises inside an iteration ends the process with that exception.
  When the device, the wave file writer, the model, \<open>open\<close> or \<open>write\<close> raises
  \<open>err\<close>, or the result has no text, the iteration stops with that exception and
  leaves exactly the calls up to the one that raised, each made once: nothing is caught,
  nothing is retried, and nothing is cleaned up (the audio file of a failed
  transcription and the empty file of a failed write stay). When iteration \<open>n\<close> stops
  with an exception after \<open>n\<close> completed iterations, the loop, and with it the script,
  returns that exception and the world as the failing call left it.
\<close>

theorem failure_ends_process:
  "(\<forall>err. sd_rec e 960000 16000 1 = Inl err \<longrightarrow>
      loop_body e w = Inl (err, \<lparr>files = files w, dirs = dirs w,
        trace = trace w @ [EvPrint ''Recording 60s...'', EvRec 960000 16000 1]\<rparr>)) \<and>
   (\<forall>a err. sd_rec e 960000 16000 1 = Inr a \<and> sd_wait e = Some err \<longrightarrow>
      loop_body e w = Inl (err, \<lparr>files = files w, dirs = dirs w,
        trace = trace w @ [EvPrint ''Recording 60s...'', EvRec 960000 16000 1, EvWait]\<rparr>)) \<and>
   (\<forall>a err. sd_rec e 960000 16000 1 = Inr a \<and> sd_wait e = None \<and> sf_write e = Some err \<longrightarrow>
      loop_body e w = Inl (err, \<lparr>files = files w, dirs = dirs w,
        trace = trace w @ [EvPrint ''Recording 60s...'', EvRec 960000 16000 1, EvWait,
          EvSfWrite ''temp.wav'' 16000]\<rparr>)) \<and>
   (\<forall>a err. sd_rec e 960000 16000 1 = Inr a \<and> sd_wait e = None \<and> sf_write e = None \<and>
        MODEL_transcribe e (Some (Wav a 16000)) = Inl err \<longrightarrow>
      loop_body e w = Inl (err, \<lparr>files = (files w)(''temp.wav'' \<mapsto> Wav a 16000),
        dirs = dirs w,
        trace = trace w @ [EvPrint ''Recording 60s...'', EvRec 960000 16000 1, EvWait,
          EvSfWrite ''temp.wav'' 16000, EvTranscribe ''temp.wav'']\<rparr>)) \<and>
   (\<forall>a r err. sd_rec e 960000 16000 1 = Inr a \<and> sd_wait e = None \<and> sf_write e = None \<and>
        MODEL_transcribe e (Some (Wav a 16000)) = Inr r \<and> open_w e = Some err \<longrightarrow>
      loop_body e w = Inl (err, \<lparr>files = (files w)(''temp.wav'' \<mapsto> Wav a 16000),
        dirs = dirs w,
        trace = trace w @ [EvPrint ''Recording 60s...'', EvRec 960000 16000 1, EvWait,
          EvSfWrite ''temp.wav'' 16000, EvTranscribe ''temp.wav'', EvNow,
          EvOpen (out_path_of (datetime_now e))]\<rparr>)) \<and>
   (\<forall>a r. sd_rec e 960000 16000 1 = Inr a \<and> sd_wait e = None \<and> sf_write e = None \<and>
        MODEL_transcribe e (Some (Wav a 16000)) = Inr r \<and> open_w e = None \<and>
        r ''text'' = None \<longrightarrow>
      loop_body e w = Inl (KeyError ''text'',
        \<lparr>files = (files w)(''temp.wav'' \<mapsto> Wav a 16000,
                            out_path_of (datetime_now e) \<mapsto> Txt []),
        dirs = dirs w,
        trace = trace w @ [EvPrint ''Recording 60s...'', EvRec 960000 16000 1, EvWait,
          EvSfWrite ''temp.wav'' 16000, EvTranscribe ''temp.wav'', EvNow,
          EvOpen (out_path_of (datetime_now e))]\<rparr>)) \<and>
   (\<forall>a r t err. sd_rec e 960000 16000 1 = Inr a \<and> sd_wait e = None \<and> sf_write e = None \<and>
        MODEL_transcribe e (Some (Wav a 16000)) = Inr r \<and> open_w e = None \<and>
        r ''text'' = Some t \<and> f_write e = Some err \<longrightarrow>
      loop_body e w = Inl (err,
        \<lparr>files = (files w)(''temp.wav'' \<mapsto> Wav a 16000,
                            out_path_of (datetime_now e) \<mapsto> Txt []),
        dirs = dirs w,
        trace = trace w @ [EvPrint ''Recording 60s...'', EvRec 960000 16000 1, EvWait,
          EvSfWrite ''temp.wav'' 16000, EvTranscribe ''temp.wav'', EvNow,
          EvOpen (out_path_of (datetime_now e)), EvWrite (out_path_of (datetime_now e))]\<rparr>)) \<and>
   (\<forall>se env n u w0 wn x. startup se u = Inr w0 \<and> iterate env 0 n w0 = Inr wn \<and>
        loop_body (env n) wn = Inl x \<longrightarrow>
      main_loop env 0 w0 = Some x \<and> script se env u = Some x)"
proof -
  note rec = record_chunk_raises [where d = 60, simplified]
    record_chunk_ok [where d = 60, simplified]
  have 1: "sd_rec e 960000 16000 1 = Inl err \<Longrightarrow>
      loop_body e w = Inl (err, \<lparr>files = files w, dirs = dirs w,
        trace = trace w @ [EvPrint ''Recording 60s...'', EvRec 960000 16000 1]\<rparr>)" for err
    by (simp add: loop_body_def rec str_int_60 emit_def)
  have 2: "sd_rec e 960000 16000 1 = Inr a \<Longrightarrow> sd_wait e = Some err \<Longrightarrow>
      loop_body e w = Inl (err, \<lparr>files = files w, dirs = dirs w,
        trace = trace w @ [EvPrint ''Recording 60s...'', EvRec 960000 16000 1, EvWait]\<rparr>)"
    for a err
    by (simp add: loop_body_def rec str_int_60 emit_def)
  have 3: "sd_rec e 960000 16000 1 = Inr a \<Longrightarrow> sd_wait e = None \<Longrightarrow> sf_write e = Some err \<Longrightarrow>
      loop_body e w = Inl (err, \<lparr>files = files w, dirs = dirs w,
        trace = trace w @ [EvPrint ''Recording 60s...'', EvRec 960000 16000 1, EvWait,
          EvSfWrite ''temp.wav'' 16000]\<rparr>)" for a err
    by (simp add: loop_body_def rec str_int_60 emit_def)
  have 4: "sd_rec e 960000 16000 1 = Inr a \<Longrightarrow> sd_wait e = None \<Longrightarrow> sf_write e = None \<Longrightarrow>
        MODEL_transcribe e (Some (Wav a 16000)) = Inl err \<Longrightarrow>
      loop_body e w = Inl (err, \<lparr>files = (files w)(''temp.wav'' \<mapsto> Wav a 16000),
        dirs = dirs w,
        trace = trace w @ [EvPrint ''Recording 60s...'', EvRec 960000 16000 1, EvWait,
          EvSfWrite ''temp.wav'' 16000, EvTranscribe ''temp.wav'']\<rparr>)" for a err
    by (simp add: loop_body_def rec str_int_60 emit_def transcribe_to_file_raises(1))
  have 5: "sd_rec e 960000 16000 1 = Inr a \<Longrightarrow> sd_wait e = None \<Longrightarrow> sf_write e = None \<Longrightarrow>
        MODEL_transcribe e (Some (Wav a 16000)) = Inr r \<Longrightarrow> open_w e = Some err \<Longrightarrow>
      loop_body e w = Inl (err, \<lparr>files = (files w)(''temp.wav'' \<mapsto> Wav a 16000),
        dirs = dirs w,
        trace = trace w @ [EvPrint ''Recording 60s...'', EvRec 960000 16000 1, EvWait,
          EvSfWrite ''temp.wav'' 16000, EvTranscribe ''temp.wav'', EvNow,
          EvOpen (out_path_of (datetime_now e))]\<rparr>)" for a r err
    by (simp add: loop_body_def rec str_int_60 emit_def
        transcribe_to_file_raises(2) [where r = r])
  have 6: "sd_rec e 960000 16000 1 = Inr a \<Longrightarrow> sd_wait e = None \<Longrightarrow> sf_write e = None \<Longrightarrow>
        MODEL_transcribe e (Some (Wav a 16000)) = Inr r \<Longrightarrow> open_w e = None \<Longrightarrow>
        r ''text'' = None \<Longrightarrow>
      loop_body e w = Inl (KeyError ''text'',
        \<lparr>files = (files w)(''temp.wav'' \<mapsto> Wav a 16000,
                            out_path_of (datetime_now e) \<mapsto> Txt []),
        dirs = dirs w,
        trace = trace w @ [EvPrint ''Recording 60s...'', EvRec 960000 16000 1, EvWait,
          EvSfWrite ''temp.wav'' 16000, EvTranscribe ''temp.wav'', EvNow,
          EvOpen (out_path_of (datetime_now e))]\<rparr>)" for a r
    by (simp add: loop_body_def rec str_int_60 emit_def store_def
        transcribe_to_file_raises(3) [where r = r])
  have 7: "sd_rec e 960000 16000 1 = Inr a \<Longrightarrow> sd_wait e = None \<Longrightarrow> sf_write e = None \<Longrightarrow>
        MODEL_transcribe e (Some (Wav a 16000)) = Inr r \<Longrightarrow> open_w e = None \<Longrightarrow>
        r ''text'' = Some t \<Longrightarrow> f_write e = Some err \<Longrightarrow>
      loop_body e w = Inl (err,
        \<lparr>files = (files w)(''temp.wav'' \<mapsto> Wav a 16000,
                            out_path_of (datetime_now e) \<mapsto> Txt []),
        dirs = dirs w,
        trace = trace w @ [EvPrint ''Recording 60s...'', EvRec 960000 16000 1, EvWait,
          EvSfWrite ''temp.wav'' 16000, EvTranscribe ''temp.wav'', EvNow,
          EvOpen (out_path_of (datetime_now e)), EvWrite (out_path_of (datetime_now e))]\<rparr>)"
    for a r t err
    by (simp add: loop_body_def rec str_int_60 emit_def store_def
        transcribe_to_file_raises(4) [where r = r and t = t])
  have 8: "startup se u = Inr w0 \<Longrightarrow> iterate env 0 n w0 = Inr wn \<Longrightarrow>
        loop_body (env n) wn = Inl x \<Longrightarrow>
      main_loop env 0 w0 = Some x \<and> script se env u = Some x"
    for se and env :: "nat \<Rightarrow> iter_env" and n u w0 wn x
    by (simp add: script_def main_loop_ends)
  have c1: "(\<forall>err. sd_rec e 960000 16000 1 = Inl err \<longrightarrow>
      loop_body e w = Inl (err, \<lparr>files = files w, dirs = dirs w,
        trace = trace w @ [EvPrint ''Recording 60s...'', EvRec 960000 16000 1]\<rparr>))"
    using 1 by blast
  have c2: "(\<forall>a err. sd_rec e 960000 16000 1 = Inr a \<and> sd_wait e = Some err \<longrightarrow>
      loop_body e w = Inl (err, \<lparr>files = files w, dirs = dirs w,
        trace = trace w @ [EvPrint ''Recording 60s...'', EvRec 960000 16000 1, EvWait]\<rparr>))"
    using 2 by blast
  have c3: "(\<forall>a err. sd_rec e 960000 16000 1 = Inr a \<and> sd_wait e = None \<and> sf_write e = Some err \<longrightarrow>
      loop_body e w = Inl (err, \<lparr>files = files w, dirs = dirs w,
        trace = trace w @ [EvPrint ''Recording 60s...'', EvRec 960000 16000 1, EvWait,
          EvSfWrite ''temp.wav'' 16000]\<rparr>))"
    using 3 by blast
  have c4: "(\<forall>a err. sd_rec e 960000 16000 1 = Inr a \<and> sd_wait e = None \<and> sf_write e = None \<and>
        MODEL_transcribe e (Some (Wav a 16000)) = Inl err \<longrightarrow>
      loop_body e w = Inl (err, \<lparr>files = (files w)(''temp.wav'' \<mapsto> Wav a 16000),
        dirs = dirs w,
        trace = trace w @ [EvPrint ''Recording 60s...'', EvRec 960000 16000 1, EvWait,
          EvSfWrite ''temp.wav'' 16000, EvTranscribe ''temp.wav'']\<rparr>))"
    using 4 by blast
  have c5: "(\<forall>a r err. sd_rec e 960000 16000 1 = Inr a \<and> sd_wait e = None \<and> sf_write e = None \<and>
        MODEL_transcribe e (Some (Wav a 16000)) = Inr r \<and> open_w e = Some err \<longrightarrow>
      loop_body e w = Inl (err, \<lparr>files = (files w)(''temp.wav'' \<mapsto> Wav a 16000),
        dirs = dirs w,
        trace = trace w @ [EvPrint ''Recording 60s...'', EvRec 960000 16000 1, EvWait,
          EvSfWrite ''temp.wav'' 16000, EvTranscribe ''temp.wav'', EvNow,
          EvOpen (out_path_of (datetime_now e))]\<rparr>))"
    using 5 by blast
  have c6: "(\<forall>a r. sd_rec e 960000 16000 1 = Inr a \<and> sd_wait e = None \<and> sf_write e = None \<and>
        MODEL_transcribe e (Some (Wav a 16000)) = Inr r \<and> open_w e = None \<and>
        r ''text'' = None \<longrightarrow>
      loop_body e w = Inl (KeyError ''text'',
        \<lparr>files = (files w)(''temp.wav'' \<mapsto> Wav a 16000,
                            out_path_of (datetime_now e) \<mapsto> Txt []),
        dirs = dirs w,
        trace = trace w @ [EvPrint ''Recording 60s...'', EvRec 960000 16000 1, EvWait,
          EvSfWrite ''temp.wav'' 16000, EvTranscribe ''temp.wav'', EvNow,
          EvOpen (out_path_of (datetime_now e))]\<rparr>))"
    using 6 by blast
  have c7: "(\<forall>a r t err. sd_rec e 960000 16000 1 = Inr a \<and> sd_wait e = None \<and> sf_write e = None \<and>
        MODEL_transcribe e (Some (Wav a 16000)) = Inr r \<and> open_w e = None \<and>
        r ''text'' = Some t \<and> f_write e = Some err \<longrightarrow>
      loop_body e w = Inl (err,
        \<lparr>files = (files w)(''temp.wav'' \<mapsto> Wav a 16000,
                            out_path_of (datetime_now e) \<mapsto> Txt []),
        dirs = dirs w,
        trace = trace w @ [EvPrint ''Recording 60s...'', EvRec 960000 16000 1, EvWait,
          EvSfWrite ''temp.wav'' 16000, EvTranscribe ''temp.wav'', EvNow,
          EvOpen (out_path_of (datetime_now e)), EvWrite (out_path_of (datetime_now e))]\<rparr>))"
    using 7 by blast
  have c8: "(\<forall>se env n u w0 wn x. startup se u = Inr w0 \<and> iterate env 0 n w0 = Inr wn \<and>
        loop_body (env n) wn = Inl x \<longrightarrow>
      main_loop env 0 w0 = Some x \<and> script se env u = Some x)"
    using 8 by blast
  show ?thesis
    by (intro conjI c1 c2 c3 c4 c5 c6 c7 c8)
qed

theorem failure_ends_process_witness:
  "script fine_start unplugged fresh_world =
     Some (PortAudioError,
       \<lparr>files = [''temp.wav'' \<mapsto> Wav (replicate 960000 [0]) 16000,
                 out_path_of (datetime_now (ticking 0)) \<mapsto> Txt '' hello'',
                 out_path_of (datetime_now (ticking 1)) \<mapsto> Txt '' hello''],
        dirs = {''./output-transcripts''},
        trace = [EvLoadModel ''base'', EvMakedirs ''./output-transcripts'',
                 EvMkdir ''./output-transcripts''] @ steps (ticking 0) @ steps (ticking 1) @
                [EvPrint ''Recording 60s...'', EvRec 960000 16000 1]\<rparr>)"
proof -
  let ?w0 = "\<lparr>files = Map.empty, dirs = {''./output-transcripts''},
          trace = [EvLoadModel ''base'', EvMakedirs ''./output-transcripts'',
                   EvMkdir ''./output-transcripts'']\<rparr>"
  let ?w2 = "\<lparr>files = [''temp.wav'' \<mapsto> Wav (replicate 960000 [0]) 16000,
                 out_path_of (datetime_now (ticking 0)) \<mapsto> Txt '' hello'',
                 out_path_of (datetime_now (ticking 1)) \<mapsto> Txt '' hello''],
        dirs = {''./output-transcripts''},
        trace = [EvLoadModel ''base'', EvMakedirs ''./output-transcripts'',
                 EvMkdir ''./output-transcripts''] @ steps (ticking 0) @ steps (ticking 1)\<rparr>"
  have h0: "startup fine_start fresh_world = Inr ?w0"
    by (rule startup_fine_fresh)
  have h1: "iterate unplugged 0 2 ?w0 = Inr ?w2"
    unfolding iterate_unplugged_explicit by simp
  have f: "sd_rec (unplugged 2) 960000 16000 1 = Inl PortAudioError"
    by (simp add: unplugged_def)
  note first = failure_ends_process [of "unplugged 2" ?w2, THEN conjunct1, rule_format, OF f]
  note last = failure_ends_process [of "unplugged 2" ?w2,
      THEN conjunct2, THEN conjunct2, THEN conjunct2, THEN conjunct2, THEN conjunct2,
      THEN conjunct2, THEN conjunct2, rule_format, OF conjI [OF h0 conjI [OF h1 first]]]
  from last [THEN conjunct2] show ?thesis
    by simp
qed

section \<open>Iteration after iteration\<close>

lemma loop_body_first_call:
  "loop_body e w = Inl x \<Longrightarrow>
   take (Suc (length (trace w))) (trace (snd x)) = trace w @ [EvPrint ''Recording 60s...'']"
  by (auto simp: loop_body_def record_chunk_def transcribe_to_file_def Let_def str_int_60
      split: sum.splits option.splits)

lemma steps_first_call:
  "take (Suc 0) (steps e @ evs) = [EvPrint ''Recording 60s...'']"
  by (simp add: steps_def)

lemma later_failure_first_call:
  assumes "iterate env i n w = Inr wn" and "loop_body (env (i + n)) wn = Inl x"
  shows "take (Suc (length (trace w))) (trace (snd x)) = trace w @ [EvPrint ''Recording 60s...'']"
proof (cases n)
  case 0
  with assms show ?thesis
    by (simp add: loop_body_first_call)
next
  case (Suc m)
  from assms(1) obtain w1 where w1: "loop_body (env i) w = Inr w1"
    and "iterate env (Suc i) m w1 = Inr wn"
    unfolding Suc by (auto split: sum.splits)
  then have "trace wn = trace w1 @ concat (map (\<lambda>k. steps (env k)) [Suc i..<Suc i + m])"
    by (simp add: iterate_trace)
  moreover from w1 have "trace w1 = trace w @ steps (env i)"
    by (auto simp: loop_body_Inr)
  moreover have "steps (env i) = EvPrint ''Recording 60s...'' # tl (steps (env i))"
    by (simp add: steps_def)
  ultimately obtain rest where wn: "trace wn = trace w @ EvPrint ''Recording 60s...'' # rest"
    by (metis append.assoc append_Cons)
  note fc = loop_body_first_call [OF assms(2)]
  have "take (Suc (length (trace w))) (trace (snd x)) =
    take (Suc (length (trace w))) (take (Suc (length (trace wn))) (trace (snd x)))"
    by (simp add: wn min_def)
  also have "\<dots> = take (Suc (length (trace w))) (trace wn @ [EvPrint ''Recording 60s...''])"
    by (simp only: fc)
  also have "\<dots> = trace w @ [EvPrint ''Recording 60s...'']"
    by (simp add: wn)
  finally show ?thesis .
qed

text \<open>
  C5. The loop has no exit of its own. An iteration that runs to its end has made its
  calls in the order of \<open>steps\<close> (the recording, the transcription, the writing, then
  the pause of 2 seconds) and is followed by the next iteration: however the loop ends
  after it, the first call of the next iteration has been made. The loop ends in one
  way only, by the exception of an iteration \<open>n\<close> that follows \<open>n\<close> completed ones, and
  the calls of \<open>n\<close> completed iterations are those of iteration 0, then those of
  iteration 1, and so on. When no iteration raises, the loop never returns and every
  number of iterations is reached.
\<close>

theorem loop_runs_forever:
  "(\<forall>k u u'. loop_body (env k) u = Inr u' \<longrightarrow>
      main_loop env k u = main_loop env (Suc k) u' \<and>
      new_events u u' =
        [EvPrint ''Recording 60s...'', EvRec 960000 16000 1, EvWait,
         EvSfWrite ''temp.wav'' 16000,
         EvTranscribe ''temp.wav'',
         EvNow, EvOpen (out_path_of (datetime_now (env k))),
         EvWrite (out_path_of (datetime_now (env k))),
         EvPrint (''Saved transcript to '' @ out_path_of (datetime_now (env k))),
         EvSleep 2] \<and>
      (\<forall>x. main_loop env k u = Some x \<longrightarrow>
         take (Suc (length (trace u'))) (trace (snd x)) =
           trace u' @ [EvPrint ''Recording 60s...''])) \<and>
   (\<forall>x. main_loop env 0 w = Some x \<longleftrightarrow>
      (\<exists>n wn. iterate env 0 n w = Inr wn \<and> loop_body (env n) wn = Inl x)) \<and>
   (\<forall>n wn. iterate env 0 n w = Inr wn \<longrightarrow>
      main_loop env 0 w = main_loop env n wn \<and>
      new_events w wn = concat (map (\<lambda>k. steps (env k)) [0..<n])) \<and>
   ((\<forall>k u x. loop_body (env k) u \<noteq> Inl x) \<longrightarrow>
      main_loop env 0 w = None \<and> (\<forall>n. \<exists>wn. iterate env 0 n w = Inr wn))"
proof -
  have c1: "\<forall>k u u'. loop_body (env k) u = Inr u' \<longrightarrow>
      main_loop env k u = main_loop env (Suc k) u' \<and>
      new_events u u' =
        [EvPrint ''Recording 60s...'', EvRec 960000 16000 1, EvWait,
         EvSfWrite ''temp.wav'' 16000,
         EvTranscribe ''temp.wav'',
         EvNow, EvOpen (out_path_of (datetime_now (env k))),
         EvWrite (out_path_of (datetime_now (env k))),
         EvPrint (''Saved transcript to '' @ out_path_of (datetime_now (env k))),
         EvSleep 2] \<and>
      (\<forall>x. main_loop env k u = Some x \<longrightarrow>
         take (Suc (length (trace u'))) (trace (snd x)) =
           trace u' @ [EvPrint ''Recording 60s...''])"
  proof (intro allI impI)
    fix k u u'
    assume ok: "loop_body (env k) u = Inr u'"
    have next_it: "main_loop env k u = main_loop env (Suc k) u'"
      by (subst main_loop.simps) (simp add: ok)
    from ok have "new_events u u' = steps (env k)"
      by (auto simp: loop_body_Inr)
    then have calls: "new_events u u' =
        [EvPrint ''Recording 60s...'', EvRec 960000 16000 1, EvWait,
         EvSfWrite ''temp.wav'' 16000,
         EvTranscribe ''temp.wav'',
         EvNow, EvOpen (out_path_of (datetime_now (env k))),
         EvWrite (out_path_of (datetime_now (env k))),
         EvPrint (''Saved transcript to '' @ out_path_of (datetime_now (env k))),
         EvSleep 2]"
      by (simp add: steps_def)
    have started: "\<forall>x. main_loop env k u = Some x \<longrightarrow>
         take (Suc (length (trace u'))) (trace (snd x)) =
           trace u' @ [EvPrint ''Recording 60s...'']"
    proof (intro allI impI)
      fix x
      assume "main_loop env k u = Some x"
      then have "main_loop env (Suc k) u' = Some x"
        by (simp add: next_it)
      from main_loop_returns_failure [OF this] obtain n wn where
        "iterate env (Suc k) n u' = Inr wn" "loop_body (env (Suc k + n)) wn = Inl x"
        by blast
      then show "take (Suc (length (trace u'))) (trace (snd x)) =
           trace u' @ [EvPrint ''Recording 60s...'']"
        by (rule later_failure_first_call)
    qed
    from next_it calls started
    show "main_loop env k u = main_loop env (Suc k) u' \<and>
      new_events u u' =
        [EvPrint ''Recording 60s...'', EvRec 960000 16000 1, EvWait,
         EvSfWrite ''temp.wav'' 16000,
         EvTranscribe ''temp.wav'',
         EvNow, EvOpen (out_path_of (datetime_now (env k))),
         EvWrite (out_path_of (datetime_now (env k))),
         EvPrint (''Saved transcript to '' @ out_path_of (datetime_now (env k))),
         EvSleep 2] \<and>
      (\<forall>x. main_loop env k u = Some x \<longrightarrow>
         take (Suc (length (trace u'))) (trace (snd x)) =
           trace u' @ [EvPrint ''Recording 60s...''])"
      by (intro conjI)
  qed
  have c2: "\<forall>x. main_loop env 0 w = Some x \<longleftrightarrow>
      (\<exists>n wn. iterate env 0 n w = Inr wn \<and> loop_body (env n) wn = Inl x)"
  proof (intro allI iffI)
    fix x
    assume "main_loop env 0 w = Some x"
    from main_loop_returns_failure [OF this]
    show "\<exists>n wn. iterate env 0 n w = Inr wn \<and> loop_body (env n) wn = Inl x"
      by simp
  next
    fix x
    assume "\<exists>n wn. iterate env 0 n w = Inr wn \<and> loop_body (env n) wn = Inl x"
    then show "main_loop env 0 w = Some x"
      by (auto intro: main_loop_ends)
  qed
  have c3: "\<forall>n wn. iterate env 0 n w = Inr wn \<longrightarrow>
      main_loop env 0 w = main_loop env n wn \<and>
      new_events w wn = concat (map (\<lambda>k. steps (env k)) [0..<n])"
    using iterate_main_loop [of env 0 _ w] iterate_new_events [of env 0 _ w] by simp
  have c4: "(\<forall>k u x. loop_body (env k) u \<noteq> Inl x) \<longrightarrow>
      main_loop env 0 w = None \<and> (\<forall>n. \<exists>wn. iterate env 0 n w = Inr wn)"
    using never_failing_main_loop [of env 0 w] never_failing_iterate [of env 0 _ w] by blast
  show ?thesis
    by (intro conjI c1 c2 c3 c4)
qed

theorem loop_runs_forever_witness:
  "main_loop ticking 0 fresh_world = None \<and>
   main_loop unplugged 0 fresh_world =
     Some (PortAudioError,
       \<lparr>files = [''temp.wav'' \<mapsto> Wav (replicate 960000 [0]) 16000,
                 out_path_of (datetime_now (ticking 0)) \<mapsto> Txt '' hello'',
                 out_path_of (datetime_now (ticking 1)) \<mapsto> Txt '' hello''],
        dirs = {},
        trace = steps (ticking 0) @ steps (ticking 1) @
                [EvPrint ''Recording 60s...'', EvRec 960000 16000 1]\<rparr>)"
proof -
  have h: "\<forall>k u x. loop_body (ticking k) u \<noteq> Inl x"
    by (simp add: loop_body_ticking)
  note never = loop_runs_forever [of ticking fresh_world,
      THEN conjunct2, THEN conjunct2, THEN conjunct2, THEN mp, OF h, THEN conjunct1]
  let ?w2 = "\<lparr>files = [''temp.wav'' \<mapsto> Wav (replicate 960000 [0]) 16000,
                 out_path_of (datetime_now (ticking 0)) \<mapsto> Txt '' hello'',
                 out_path_of (datetime_now (ticking 1)) \<mapsto> Txt '' hello''],
        dirs = {}, trace = steps (ticking 0) @ steps (ticking 1)\<rparr>"
  have h1: "iterate unplugged 0 2 fresh_world = Inr ?w2"
    unfolding iterate_unplugged_explicit by (simp add: fresh_world_def)
  have h2: "loop_body (unplugged 2) ?w2 =
      Inl (PortAudioError, ?w2\<lparr>trace := trace ?w2 @
        [EvPrint ''Recording 60s...'', EvRec 960000 16000 1]\<rparr>)"
    unfolding loop_body_unplugged by (simp add: emit_def)
  have "\<exists>n wn. iterate unplugged 0 n fresh_world = Inr wn \<and>
      loop_body (unplugged n) wn = Inl (PortAudioError, ?w2\<lparr>trace := trace ?w2 @
        [EvPrint ''Recording 60s...'', EvRec 960000 16000 1]\<rparr>)"
    using h1 h2 by blast
  then have "main_loop unplugged 0 fresh_world = Some (PortAudioError, ?w2\<lparr>trace := trace ?w2 @
        [EvPrint ''Recording 60s...'', EvRec 960000 16000 1]\<rparr>)"
    by (rule loop_runs_forever [of unplugged fresh_world,
      THEN conjunct2, THEN conjunct1, THEN spec, THEN iffD2])
  with never show ?thesis
    by simp
qed

section \<open>The output directory\<close>

lemma startup_Inr:
  "startup se w = Inr w1 \<longleftrightarrow>
     load_model se = None \<and>
     (if OUT_DIR \<in> dirs w
      then w1 = \<lparr>files = files w, dirs = dirs w,
                 trace = trace w @ [EvLoadModel ''base'', EvMakedirs OUT_DIR]\<rparr>
      else files w OUT_DIR = None \<and> mkdir se = None \<and>
           w1 = \<lparr>files = files w, dirs = insert OUT_DIR (dirs w),
                 trace = trace w @ [EvLoadModel ''base'', EvMakedirs OUT_DIR, EvMkdir OUT_DIR]\<rparr>)"
  by (auto simp: startup_def makedirs_def Let_def emit_def split: option.splits)

lemma steps_no_mkdir:
  "EvMakedirs p \<notin> set (concat (map (\<lambda>k. steps (env k)) ks))"
  "EvMkdir p \<notin> set (concat (map (\<lambda>k. steps (env k)) ks))"
  by (auto simp: steps_def)

lemma count_steps_mkdir [simp]:
  "count_list (concat (map (\<lambda>k. steps (env k)) ks)) (EvMakedirs p) = 0"
  "count_list (concat (map (\<lambda>k. steps (env k)) ks)) (EvMkdir p) = 0"
  using steps_no_mkdir [of p env ks] by (simp_all add: count_list_0_iff)



text \<open>
  C8. Where the directory is already there and the model loads, the module-level
  statements return and change nothing but the list of calls. In every run that gets
  through them and through any number of iterations, \<open>makedirs\<close> has been called once,
  the directory has been made once if it was not there at the start and not at all if
  it was, the directories are those of the start and the output directory, and the
  files are as they were when the loop begins.
\<close>

theorem output_dir_created_once:
  "(load_model se = None \<and> OUT_DIR \<in> dirs w \<longrightarrow>
      startup se w = Inr (emit (EvMakedirs OUT_DIR) (emit (EvLoadModel ''base'') w))) \<and>
   (\<forall>w1 w'. startup se w = Inr w1 \<and> iterate env 0 n w1 = Inr w' \<longrightarrow>
      dirs w' = insert OUT_DIR (dirs w) \<and> files w1 = files w \<and>
      count_list (new_events w w') (EvMakedirs OUT_DIR) = 1 \<and>
      count_list (new_events w w') (EvMkdir OUT_DIR) = (if OUT_DIR \<in> dirs w then 0 else 1))"
proof (rule conjI)
  show "load_model se = None \<and> OUT_DIR \<in> dirs w \<longrightarrow>
      startup se w = Inr (emit (EvMakedirs OUT_DIR) (emit (EvLoadModel ''base'') w))"
    by (simp add: startup_def makedirs_def Let_def)
next
  show "\<forall>w1 w'. startup se w = Inr w1 \<and> iterate env 0 n w1 = Inr w' \<longrightarrow>
      dirs w' = insert OUT_DIR (dirs w) \<and> files w1 = files w \<and>
      count_list (new_events w w') (EvMakedirs OUT_DIR) = 1 \<and>
      count_list (new_events w w') (EvMkdir OUT_DIR) = (if OUT_DIR \<in> dirs w then 0 else 1)"
  proof (intro allI impI)
  fix w1 w'
  assume a: "startup se w = Inr w1 \<and> iterate env 0 n w1 = Inr w'"
  then have s: "startup se w = Inr w1" and i: "iterate env 0 n w1 = Inr w'"
    by simp_all
  from iterate_trace [OF i]
  have t: "trace w' = trace w1 @ concat (map (\<lambda>k. steps (env k)) [0..<n])"
    and d: "dirs w' = dirs w1"
    by simp_all
  show "dirs w' = insert OUT_DIR (dirs w) \<and> files w1 = files w \<and>
      count_list (new_events w w') (EvMakedirs OUT_DIR) = 1 \<and>
      count_list (new_events w w') (EvMkdir OUT_DIR) = (if OUT_DIR \<in> dirs w then 0 else 1)"
  proof (cases "OUT_DIR \<in> dirs w")
    case True
    with s have w1: "files w1 = files w" "dirs w1 = dirs w"
      "trace w1 = trace w @ [EvLoadModel ''base'', EvMakedirs OUT_DIR]"
      by (simp_all add: startup_Inr)
    have "new_events w w' = [EvLoadModel ''base'', EvMakedirs OUT_DIR] @
        concat (map (\<lambda>k. steps (env k)) [0..<n])"
      by (rule new_events_append) (simp add: t w1)
    with True w1 d show ?thesis
      by (simp add: insert_absorb)
  next
    case False
    with s have w1: "files w1 = files w" "dirs w1 = insert OUT_DIR (dirs w)"
      "trace w1 = trace w @ [EvLoadModel ''base'', EvMakedirs OUT_DIR, EvMkdir OUT_DIR]"
      by (simp_all add: startup_Inr)
    have "new_events w w' = [EvLoadModel ''base'', EvMakedirs OUT_DIR, EvMkdir OUT_DIR] @
        concat (map (\<lambda>k. steps (env k)) [0..<n])"
      by (rule new_events_append) (simp add: t w1)
    with False w1 d show ?thesis
      by simp
  qed
  qed
qed


theorem output_dir_created_once_witness:
  "dirs (projr (iterate ticking 0 3 (projr (startup fine_start fresh_world)))) =
     {''./output-transcripts''} \<and>
   count_list (new_events fresh_world
     (projr (iterate ticking 0 3 (projr (startup fine_start fresh_world)))))
     (EvMkdir ''./output-transcripts'') = 1 \<and>
   dirs (projr (iterate ticking 0 3 (projr (startup fine_start used_world)))) =
     {''./output-transcripts''} \<and>
   count_list (new_events used_world
     (projr (iterate ticking 0 3 (projr (startup fine_start used_world)))))
     (EvMkdir ''./output-transcripts'') = 0"
proof -
  let ?a = "projr (startup fine_start fresh_world)"
  let ?b = "projr (startup fine_start used_world)"
  have o: "OUT_DIR = ''./output-transcripts''"
    by (simp add: OUT_DIR_def)
  have fresh: "OUT_DIR \<notin> dirs fresh_world" "dirs fresh_world = {}"
    by (simp_all add: fresh_world_def)
  have used: "OUT_DIR \<in> dirs used_world" "dirs used_world = {OUT_DIR}"
    by (simp_all add: used_world_def o)
  have l: "load_model fine_start = None"
    by (simp add: fine_start_def)
  have a: "startup fine_start fresh_world = Inr ?a"
    by (simp add: startup_fine_fresh)
  note b0 = output_dir_created_once [THEN conjunct1, rule_format, OF conjI [OF l used(1)]]
  have b: "startup fine_start used_world = Inr ?b"
    unfolding b0 by simp
  have a3: "iterate ticking 0 3 ?a = Inr (projr (iterate ticking 0 3 ?a))"
    unfolding iterate_ticking_3 by simp
  have b3: "iterate ticking 0 3 ?b = Inr (projr (iterate ticking 0 3 ?b))"
    unfolding iterate_ticking_3 by simp
  note ra = output_dir_created_once [THEN conjunct2, rule_format, OF conjI [OF a a3]]
  note rb = output_dir_created_once [THEN conjunct2, rule_format, OF conjI [OF b b3]]
  have r1: "dirs (projr (iterate ticking 0 3 ?a)) = {OUT_DIR}"
    "count_list (new_events fresh_world (projr (iterate ticking 0 3 ?a))) (EvMkdir OUT_DIR) = 1"
    using ra [THEN conjunct1] ra [THEN conjunct2, THEN conjunct2, THEN conjunct2]
    unfolding fresh by simp_all
  have r2: "dirs (projr (iterate ticking 0 3 ?b)) = {OUT_DIR}"
    "count_list (new_events used_world (projr (iterate ticking 0 3 ?b))) (EvMkdir OUT_DIR) = 0"
    using rb [THEN conjunct1] rb [THEN conjunct2, THEN conjunct2, THEN conjunct2] used(1)
    unfolding used(2) by simp_all
  from r1 r2 show ?thesis
    unfolding o by (intro conjI)
qed

section \<open>The transcripts of a run\<close>

lemma out_path_eq_iff [simp]:
  "out_path_of s = out_path_of t \<longleftrightarrow> strftime s = strftime t"
  by (simp add: out_path_of_def)

lemma in_out_dir_out_path [simp]: "in_out_dir (out_path_of t)"
  by (simp add: in_out_dir_def out_path_of_def OUT_DIR_def)

lemma not_in_out_dir_temp [simp]: "\<not> in_out_dir ''temp.wav''"
  by (simp add: in_out_dir_def OUT_DIR_def)

lemma iterate_dom:
  "iterate env i n w = Inr w' \<Longrightarrow>
   dom (files w') = dom (files w) \<union> (if n = 0 then {} else {''temp.wav''}) \<union>
     (\<lambda>k. out_path_of (datetime_now (env k))) ` {i..<i + n}"
proof (induction n arbitrary: w')
  case 0
  then show ?case by simp
next
  case (Suc n)
  from Suc.prems obtain w1 where w1: "iterate env i n w = Inr w1"
    and last: "loop_body (env (i + n)) w1 = Inr w'"
    unfolding iterate_snoc by (auto split: sum.splits)
  from last obtain a t where
    "files w' = (files w1)(''temp.wav'' \<mapsto> Wav a 16000,
                         out_path_of (datetime_now (env (i + n))) \<mapsto> Txt t)"
    unfolding loop_body_Inr by auto
  then have "dom (files w') =
      insert (out_path_of (datetime_now (env (i + n)))) (insert ''temp.wav'' (dom (files w1)))"
    by simp
  moreover have "{i..<i + Suc n} = insert (i + n) {i..<i + n}"
    by auto
  ultimately show ?case
    unfolding Suc.IH [OF w1] by auto
qed

lemma iterate_transcripts:
  assumes "iterate env i n w = Inr w'"
  shows "transcripts w' =
    transcripts w \<union> (\<lambda>k. out_path_of (datetime_now (env k))) ` {i..<i + n}"
  unfolding transcripts_def iterate_dom [OF assms] by auto

lemma iterate_texts:
  "iterate env i n w = Inr w' \<Longrightarrow>
   inj_on (\<lambda>k. strftime (datetime_now (env k))) {i..<i + n} \<Longrightarrow> k \<in> {i..<i + n} \<Longrightarrow>
   \<exists>a r t. sd_rec (env k) 960000 16000 1 = Inr a \<and>
     MODEL_transcribe (env k) (Some (Wav a 16000)) = Inr r \<and> r ''text'' = Some t \<and>
     files w' (out_path_of (datetime_now (env k))) = Some (Txt t)"
proof (induction n arbitrary: w')
  case 0
  then show ?case by simp
next
  case (Suc n)
  from Suc.prems(1) obtain w1 where w1: "iterate env i n w = Inr w1"
    and last: "loop_body (env (i + n)) w1 = Inr w'"
    unfolding iterate_snoc by (auto split: sum.splits)
  from last obtain a r t where *: "sd_rec (env (i + n)) 960000 16000 1 = Inr a"
    "MODEL_transcribe (env (i + n)) (Some (Wav a 16000)) = Inr r" "r ''text'' = Some t"
    and f: "files w' = (files w1)(''temp.wav'' \<mapsto> Wav a 16000,
                         out_path_of (datetime_now (env (i + n))) \<mapsto> Txt t)"
    unfolding loop_body_Inr by auto
  show ?case
  proof (cases "k = i + n")
    case True
    with * f show ?thesis by auto
  next
    case False
    with Suc.prems(3) have k: "k \<in> {i..<i + n}" by auto
    have "inj_on (\<lambda>k. strftime (datetime_now (env k))) {i..<i + n}"
      by (rule inj_on_subset [OF Suc.prems(2)]) auto
    from Suc.IH [OF w1 this k] obtain a' r' t' where
      old: "sd_rec (env k) 960000 16000 1 = Inr a'"
      "MODEL_transcribe (env k) (Some (Wav a' 16000)) = Inr r'" "r' ''text'' = Some t'"
      "files w1 (out_path_of (datetime_now (env k))) = Some (Txt t')"
      by blast
    have "strftime (datetime_now (env k)) \<noteq> strftime (datetime_now (env (i + n)))"
      using inj_onD [OF Suc.prems(2), of k "i + n"] False Suc.prems(3) by auto
    then have "files w' (out_path_of (datetime_now (env k))) = Some (Txt t')"
      unfolding f using old(4) by simp
    with old show ?thesis by blast
  qed
qed


lemma out_path_ticking:
  "out_path_of (datetime_now (ticking 0)) = ''./output-transcripts/voice_2024-05-17_090307.txt''"
  "out_path_of (datetime_now (ticking 1)) = ''./output-transcripts/voice_2024-05-17_090308.txt''"
  "out_path_of (datetime_now (ticking 2)) = ''./output-transcripts/voice_2024-05-17_090309.txt''"
  by (simp_all add: ticking_def quiet_env_def morning_def out_path_of_def OUT_DIR_def
      strftime_def pad2_def pad4_def digit_def)

lemma startup_fine_used:
  "startup fine_start used_world =
     Inr \<lparr>files = [''./output-transcripts/voice_2024-05-16_080000.txt'' \<mapsto> Txt '' old''],
          dirs = {''./output-transcripts''},
          trace = [EvLoadModel ''base'', EvMakedirs ''./output-transcripts'']\<rparr>"
  by (simp add: startup_def makedirs_def fine_start_def used_world_def emit_def OUT_DIR_def
      Let_def)

text \<open>
  C1, as the specification states it, fails where an earlier run has left a transcript
  in the output directory, which \<^verbatim>\<open>exist_ok=True\<close> allows: after the module-level
  statements and one iteration the directory holds two files, not one.
\<close>

theorem transcripts_count_counterexample:
  "\<not> isl (startup fine_start used_world) \<and>
   \<not> isl (iterate ticking 0 1 (projr (startup fine_start used_world))) \<and>
   card (transcripts (projr (iterate ticking 0 1 (projr (startup fine_start used_world))))) = 2 \<and>
   card (transcripts (projr (iterate ticking 0 1 (projr (startup fine_start used_world))))) \<noteq> 1"
proof -
  have "transcripts (projr (iterate ticking 0 1 (projr (startup fine_start used_world)))) =
    {''./output-transcripts/voice_2024-05-16_080000.txt'',
     ''./output-transcripts/voice_2024-05-17_090307.txt''}"
    unfolding startup_fine_used
    by (auto simp: loop_body_ticking out_path_ticking transcripts_def in_out_dir_def OUT_DIR_def
        split: if_splits)
  then show ?thesis
    by (simp add: startup_fine_used loop_body_ticking)
qed

text \<open>
  C1, amended. After \<open>N\<close> completed iterations whose timestamps are distinct, the output
  directory holds the files it held before and the \<open>N\<close> files named by the
  iterations' timestamps; each of these holds exactly the text the model returned for
  the chunk recorded in its iteration. Exactly \<open>N\<close> files exist when the directory was
  empty at the start.
\<close>

theorem transcripts_after_iterations:
  assumes "iterate env 0 N w = Inr w'"
    and "inj_on (\<lambda>k. strftime (datetime_now (env k))) {..<N}"
  shows "transcripts w' = transcripts w \<union> (\<lambda>k. out_path_of (datetime_now (env k))) ` {..<N} \<and>
         card ((\<lambda>k. out_path_of (datetime_now (env k))) ` {..<N}) = N \<and>
         (\<forall>k<N. \<exists>a r t. sd_rec (env k) 960000 16000 1 = Inr a \<and>
            MODEL_transcribe (env k) (Some (Wav a 16000)) = Inr r \<and> r ''text'' = Some t \<and>
            files w' (out_path_of (datetime_now (env k))) = Some (Txt t)) \<and>
         (transcripts w = {} \<longrightarrow> card (transcripts w') = N)"
proof -
  have r: "{0..<0 + N} = {..<N}"
    by auto
  have t: "transcripts w' = transcripts w \<union> (\<lambda>k. out_path_of (datetime_now (env k))) ` {..<N}"
    using iterate_transcripts [OF assms(1)] unfolding r .
  have "inj_on (\<lambda>k. out_path_of (datetime_now (env k))) {..<N}"
    using assms(2) by (auto simp: inj_on_def)
  then have c: "card ((\<lambda>k. out_path_of (datetime_now (env k))) ` {..<N}) = N"
    by (simp add: card_image)
  have x: "\<forall>k<N. \<exists>a r t. sd_rec (env k) 960000 16000 1 = Inr a \<and>
            MODEL_transcribe (env k) (Some (Wav a 16000)) = Inr r \<and> r ''text'' = Some t \<and>
            files w' (out_path_of (datetime_now (env k))) = Some (Txt t)"
  proof (intro allI impI)
    fix k
    assume "k < N"
    then have "k \<in> {0..<0 + N}" by simp
    with assms show "\<exists>a r t. sd_rec (env k) 960000 16000 1 = Inr a \<and>
            MODEL_transcribe (env k) (Some (Wav a 16000)) = Inr r \<and> r ''text'' = Some t \<and>
            files w' (out_path_of (datetime_now (env k))) = Some (Txt t)"
      unfolding r [symmetric] by (rule iterate_texts)
  qed
  from t c have "transcripts w = {} \<longrightarrow> card (transcripts w') = N"
    by simp
  with t c x show ?thesis
    by blast
qed

theorem transcripts_after_iterations_witness:
  "transcripts (projr (iterate ticking 0 3 (projr (startup fine_start fresh_world)))) =
     {''./output-transcripts/voice_2024-05-17_090307.txt'',
      ''./output-transcripts/voice_2024-05-17_090308.txt'',
      ''./output-transcripts/voice_2024-05-17_090309.txt''} \<and>
   card (transcripts (projr (iterate ticking 0 3 (projr (startup fine_start fresh_world))))) = 3"
proof -
  let ?w = "projr (startup fine_start fresh_world)"
  let ?w' = "projr (iterate ticking 0 3 ?w)"
  have h1: "iterate ticking 0 3 ?w = Inr ?w'"
    unfolding iterate_ticking_3 by simp
  have s: "strftime (datetime_now (ticking 0)) = ''2024-05-17_090307''"
    "strftime (datetime_now (ticking 1)) = ''2024-05-17_090308''"
    "strftime (datetime_now (ticking 2)) = ''2024-05-17_090309''"
    by (simp_all add: ticking_def quiet_env_def morning_def strftime_def pad2_def pad4_def
        digit_def)
  have three: "{..<3::nat} = {0, 1, 2}"
    by auto
  have h2: "inj_on (\<lambda>k. strftime (datetime_now (ticking k))) {..<3}"
    unfolding three by (simp add: s s(2) [unfolded One_nat_def])
  have e: "transcripts ?w = {}"
    by (simp add: startup_fine_fresh transcripts_def)
  note r = transcripts_after_iterations [OF h1 h2]
  have "transcripts ?w' = (\<lambda>k. out_path_of (datetime_now (ticking k))) ` {..<3}"
    using r [THEN conjunct1] unfolding e by simp
  then have a: "transcripts ?w' =
     {''./output-transcripts/voice_2024-05-17_090307.txt'',
      ''./output-transcripts/voice_2024-05-17_090308.txt'',
      ''./output-transcripts/voice_2024-05-17_090309.txt''}"
    unfolding three by (simp add: out_path_ticking out_path_ticking(2) [unfolded One_nat_def])
  have b: "card (transcripts ?w') = 3"
    using r [THEN conjunct2, THEN conjunct2, THEN conjunct2] e by simp
  from a b show ?thesis
    by (rule conjI)
qed

end
